theory Spec2Isabelle
  imports Complex_Main "HOL-Library.Word"
begin

unbundle bit_operations_syntax

section \<open>Data model\<close>

text \<open>
  The lowering functions of \<^verbatim>\<open>convert_ops.cpp\<close> and \<^verbatim>\<open>elementwise.cpp\<close> never execute
  anything: they compose instructions of the XLA builder into a computation graph. An
  \<^verbatim>\<open>xla::XlaOp\<close> is modelled as the expression it denotes (the node together with its
  operand subgraph), so a function that returns its argument has added no node, and a
  function that returns \<open>ConvertElementType v t\<close> has added exactly one node on top of \<open>v\<close>.
\<close>

subsection \<open>Numeric kinds (\<^verbatim>\<open>xla::PrimitiveType\<close>)\<close>

datatype PrimitiveType =
    PRED
  | S8 | S16 | S32 | S64
  | U8 | U16 | U32 | U64
  | F16 | BF16 | F32 | F64
  | C64 | C128

fun IsSignedIntegralType :: "PrimitiveType \<Rightarrow> bool" where
  "IsSignedIntegralType S8 = True"
| "IsSignedIntegralType S16 = True"
| "IsSignedIntegralType S32 = True"
| "IsSignedIntegralType S64 = True"
| "IsSignedIntegralType _ = False"

fun IsUnsignedIntegralType :: "PrimitiveType \<Rightarrow> bool" where
  "IsUnsignedIntegralType U8 = True"
| "IsUnsignedIntegralType U16 = True"
| "IsUnsignedIntegralType U32 = True"
| "IsUnsignedIntegralType U64 = True"
| "IsUnsignedIntegralType _ = False"

definition IsIntegralType :: "PrimitiveType \<Rightarrow> bool" where
  "IsIntegralType t = (IsUnsignedIntegralType t \<or> IsSignedIntegralType t)"

fun IsFloatingPointType :: "PrimitiveType \<Rightarrow> bool" where
  "IsFloatingPointType F16 = True"
| "IsFloatingPointType BF16 = True"
| "IsFloatingPointType F32 = True"
| "IsFloatingPointType F64 = True"
| "IsFloatingPointType _ = False"

text \<open>\<^verbatim>\<open>xla::ShapeUtil::ByteSizeOfPrimitiveType\<close>: the storage width of a kind in bytes.\<close>

fun ByteSizeOfPrimitiveType :: "PrimitiveType \<Rightarrow> int" where
  "ByteSizeOfPrimitiveType PRED = 1"
| "ByteSizeOfPrimitiveType S8 = 1"
| "ByteSizeOfPrimitiveType S16 = 2"
| "ByteSizeOfPrimitiveType S32 = 4"
| "ByteSizeOfPrimitiveType S64 = 8"
| "ByteSizeOfPrimitiveType U8 = 1"
| "ByteSizeOfPrimitiveType U16 = 2"
| "ByteSizeOfPrimitiveType U32 = 4"
| "ByteSizeOfPrimitiveType U64 = 8"
| "ByteSizeOfPrimitiveType F16 = 2"
| "ByteSizeOfPrimitiveType BF16 = 2"
| "ByteSizeOfPrimitiveType F32 = 4"
| "ByteSizeOfPrimitiveType F64 = 8"
| "ByteSizeOfPrimitiveType C64 = 8"
| "ByteSizeOfPrimitiveType C128 = 16"

definition CHAR_BIT :: int where
  "CHAR_BIT = 8"

subsection \<open>Shapes, literals and graph nodes\<close>

record Shape =
  element_type :: PrimitiveType
  dimensions :: "int list"

text \<open>
  Host-side constants. \<open>Literal\<close> is what a constant node of the graph holds;
  \<open>Scalar\<close> is \<^verbatim>\<open>at::Scalar\<close> restricted to finite integral and floating values.
\<close>

datatype Literal = IntLit int | RealLit real | NanLit

datatype Scalar = ScalarInt int | ScalarDouble real

fun toDouble :: "Scalar \<Rightarrow> real" where
  "toDouble (ScalarInt n) = real_of_int n"
| "toDouble (ScalarDouble r) = r"

datatype ComparisonDirection = kEq | kNe | kGe | kGt | kLe | kLt

datatype UnaryOp = kNeg | kAbs | kSign | kExp | kLog | kLog1p

datatype BinaryOp =
    kAdd | kSub | kMul | kDiv | kMax | kMin | kAnd | kOr
  | kShiftLeft | kShiftRightArithmetic | kShiftRightLogical

text \<open>
  The instructions of the builder that the modelled functions emit. \<open>Parameter\<close> stands
  for any value that already exists in the graph, with the shape the shape inspector
  reports for it. The last argument of \<open>Binary\<close> and \<open>Compare\<close> is the list of
  broadcast dimensions (empty when the source passes none).
\<close>

datatype XlaOp =
    Parameter nat Shape
  | ConstantLiteral PrimitiveType Literal
  | ConvertElementType XlaOp PrimitiveType
  | Unary UnaryOp XlaOp
  | Binary BinaryOp XlaOp XlaOp "int list"
  | Compare ComparisonDirection XlaOp XlaOp "int list"
  | Select XlaOp XlaOp XlaOp
  | Clamp XlaOp XlaOp XlaOp
  | Broadcast XlaOp "int list"
  | RngUniformOp XlaOp Shape XlaOp XlaOp

text \<open>Number of instructions of the expression an \<open>XlaOp\<close> denotes.\<close>

fun instruction_count :: "XlaOp \<Rightarrow> nat" where
  "instruction_count (Parameter n s) = 1"
| "instruction_count (ConstantLiteral t l) = 1"
| "instruction_count (ConvertElementType x t) = Suc (instruction_count x)"
| "instruction_count (Unary u x) = Suc (instruction_count x)"
| "instruction_count (Binary b x y ds) = Suc (instruction_count x + instruction_count y)"
| "instruction_count (Compare d x y ds) = Suc (instruction_count x + instruction_count y)"
| "instruction_count (Select p x y) =
     Suc (instruction_count p + instruction_count x + instruction_count y)"
| "instruction_count (Clamp lo x hi) =
     Suc (instruction_count lo + instruction_count x + instruction_count hi)"
| "instruction_count (Broadcast x ds) = Suc (instruction_count x)"
| "instruction_count (RngUniformOp seed s lo hi) =
     Suc (instruction_count seed + instruction_count lo + instruction_count hi)"

subsection \<open>The shape inspector (\<^verbatim>\<open>ShapeHelper::ShapeOfXlaOp\<close>)\<close>

text \<open>
  Modelled from the spec: \<^verbatim>\<open>ShapeHelper::ShapeOfXlaOp\<close> and \<^verbatim>\<open>XlaHelpers::TypeOfXlaOp\<close>
  are not among the source files. Given a value, the inspector returns its shape (the
  sequence of dimension sizes) and its numeric kind. The kind and dimensions of a node
  are those of XLA's shape inference: a conversion has the target kind, a comparison
  yields \<open>PRED\<close>, an elementwise instruction keeps the kind of its first operand and
  takes the dimensions of the operand that is not a scalar.
\<close>

definition broadcast_dims :: "int list \<Rightarrow> int list \<Rightarrow> int list" where
  "broadcast_dims xs ys = (if xs = [] then ys else xs)"

fun ShapeOfXlaOp :: "XlaOp \<Rightarrow> Shape" where
  "ShapeOfXlaOp (Parameter n s) = s"
| "ShapeOfXlaOp (ConstantLiteral t l) = \<lparr>element_type = t, dimensions = []\<rparr>"
| "ShapeOfXlaOp (ConvertElementType x t) =
     \<lparr>element_type = t, dimensions = dimensions (ShapeOfXlaOp x)\<rparr>"
| "ShapeOfXlaOp (Unary u x) = ShapeOfXlaOp x"
| "ShapeOfXlaOp (Binary b x y ds) =
     \<lparr>element_type = element_type (ShapeOfXlaOp x),
      dimensions = broadcast_dims (dimensions (ShapeOfXlaOp x)) (dimensions (ShapeOfXlaOp y))\<rparr>"
| "ShapeOfXlaOp (Compare d x y ds) =
     \<lparr>element_type = PRED,
      dimensions = broadcast_dims (dimensions (ShapeOfXlaOp x)) (dimensions (ShapeOfXlaOp y))\<rparr>"
| "ShapeOfXlaOp (Select p x y) =
     \<lparr>element_type = element_type (ShapeOfXlaOp x),
      dimensions = broadcast_dims (dimensions (ShapeOfXlaOp x)) (dimensions (ShapeOfXlaOp p))\<rparr>"
| "ShapeOfXlaOp (Clamp lo x hi) = ShapeOfXlaOp x"
| "ShapeOfXlaOp (Broadcast x ds) =
     \<lparr>element_type = element_type (ShapeOfXlaOp x),
      dimensions = ds @ dimensions (ShapeOfXlaOp x)\<rparr>"
| "ShapeOfXlaOp (RngUniformOp seed s lo hi) = s"

definition TypeOfXlaOp :: "XlaOp \<Rightarrow> PrimitiveType" where
  "TypeOfXlaOp x = element_type (ShapeOfXlaOp x)"

subsection \<open>Constant injection and operators of the builder\<close>

text \<open>
  Modelled from the spec: \<^verbatim>\<open>XlaHelpers::ScalarValue(value, type, builder)\<close> is not among
  the source files. It materialises a host-side constant as a scalar value of the graph
  with the given target kind; \<open>ScalarValue_at\<close> is its overload for \<^verbatim>\<open>at::Scalar\<close>.
  \<^verbatim>\<open>xla::Zero\<close>, \<^verbatim>\<open>xla::One\<close> and \<^verbatim>\<open>xla::NanValue\<close> of the builder are the
  constants 0, 1 and NaN of a kind.
\<close>

definition ScalarValue :: "Literal \<Rightarrow> PrimitiveType \<Rightarrow> XlaOp" where
  "ScalarValue v t = ConstantLiteral t v"

fun ScalarValue_at :: "Scalar \<Rightarrow> PrimitiveType \<Rightarrow> XlaOp" where
  "ScalarValue_at (ScalarInt n) t = ScalarValue (IntLit n) t"
| "ScalarValue_at (ScalarDouble r) t = ScalarValue (RealLit r) t"

definition Zero :: "PrimitiveType \<Rightarrow> XlaOp" where
  "Zero t = ConstantLiteral t (IntLit 0)"

definition One :: "PrimitiveType \<Rightarrow> XlaOp" where
  "One t = ConstantLiteral t (IntLit 1)"


subsection \<open>Narrowing of a host double to single precision\<close>





text \<open>
  The C++ operators on \<^verbatim>\<open>XlaOp\<close>. \<^verbatim>\<open>operator>>\<close> emits an arithmetic shift when the
  element kind of its left operand is signed and a logical shift otherwise.
\<close>

definition op_shl :: "XlaOp \<Rightarrow> XlaOp \<Rightarrow> XlaOp" where
  "op_shl x y = Binary kShiftLeft x y []"

definition op_shr :: "XlaOp \<Rightarrow> XlaOp \<Rightarrow> XlaOp" where
  "op_shr x y =
     (if IsSignedIntegralType (TypeOfXlaOp x) then Binary kShiftRightArithmetic x y []
      else Binary kShiftRightLogical x y [])"

definition op_and :: "XlaOp \<Rightarrow> XlaOp \<Rightarrow> XlaOp" where
  "op_and x y = Binary kAnd x y []"

subsection \<open>Fatal errors\<close>

text \<open>
  \<^verbatim>\<open>XLA_CHECK_GE\<close> and \<^verbatim>\<open>XLA_ERROR\<close> abort the call: the function returns no value. A
  function that can abort returns \<open>fatal + XlaOp\<close>, with \<open>Inl\<close> for the abort.
\<close>

datatype fatal = XLA_CHECK_GE_failed int int | XLA_ERROR string

section \<open>\<^verbatim>\<open>convert_ops.cpp\<close>\<close>

definition CreateRawMask :: "XlaOp \<Rightarrow> PrimitiveType \<Rightarrow> int \<Rightarrow> int \<Rightarrow> XlaOp" where
  "CreateRawMask op type size_bytes narrow_size =
     (let mask_value = push_bit (nat (narrow_size * CHAR_BIT)) (1 :: 64 word) - 1;
          mask = ScalarValue (IntLit (uint mask_value)) type
      in if IsSignedIntegralType type
         then let shift = ScalarValue (IntLit ((size_bytes - narrow_size) * CHAR_BIT)) S32
              in op_shr (op_shl mask shift) shift
         else mask)"

definition ConvertData :: "XlaOp \<Rightarrow> PrimitiveType \<Rightarrow> PrimitiveType \<Rightarrow> fatal + XlaOp" where
  "ConvertData op type narrow_type =
     (if \<not> IsIntegralType type \<or> \<not> IsIntegralType narrow_type then Inr op
      else let size_bytes = ByteSizeOfPrimitiveType type;
               narrow_size = ByteSizeOfPrimitiveType narrow_type
           in if \<not> (size_bytes \<ge> narrow_size)
              then Inl (XLA_CHECK_GE_failed size_bytes narrow_size)
              else if size_bytes = narrow_size then Inr op
              else Inr (op_and op (CreateRawMask op type size_bytes narrow_size)))"

definition ConvertTo :: "XlaOp \<Rightarrow> PrimitiveType \<Rightarrow> PrimitiveType \<Rightarrow> XlaOp" where
  "ConvertTo op from to = (if from = to then op else ConvertElementType op to)"

definition ConvertToRaw ::
  "XlaOp \<Rightarrow> PrimitiveType \<Rightarrow> PrimitiveType \<Rightarrow> PrimitiveType \<Rightarrow> PrimitiveType \<Rightarrow> fatal + XlaOp" where
  "ConvertToRaw op from raw_from to raw_to =
     (case (if from \<noteq> raw_from then ConvertData op from raw_from else Inr op) of
        Inl e \<Rightarrow> Inl e
      | Inr op' \<Rightarrow>
          (let result = ConvertTo op' from to
           in if to = raw_to then Inr result else ConvertData result to raw_to))"

text \<open>
  \<open>dev\<close> stands for \<^verbatim>\<open>MaybeDowncastToXlaDeviceType(_, bridge::GetCurrentDevice())\<close>, the
  device kind resolver, which is not part of the two source files.
\<close>

definition ConvertToNumeric ::
  "(PrimitiveType \<Rightarrow> PrimitiveType) \<Rightarrow> XlaOp \<Rightarrow> PrimitiveType \<Rightarrow> XlaOp" where
  "ConvertToNumeric dev op from = (if from = PRED then ConvertTo op from (dev U8) else op)"

definition ConvertToNumeric1 :: "(PrimitiveType \<Rightarrow> PrimitiveType) \<Rightarrow> XlaOp \<Rightarrow> XlaOp" where
  "ConvertToNumeric1 dev op = ConvertToNumeric dev op (TypeOfXlaOp op)"

definition MaybeConvertTo :: "XlaOp \<Rightarrow> PrimitiveType \<Rightarrow> XlaOp" where
  "MaybeConvertTo input type =
     (if TypeOfXlaOp input \<noteq> type then ConvertElementType input type else input)"

section \<open>\<^verbatim>\<open>elementwise.cpp\<close>\<close>

subsection \<open>Collaborators that are not part of the two source files\<close>

text \<open>
  \<^verbatim>\<open>XlaHelpers::Promote\<close> and \<^verbatim>\<open>XlaHelpers::getBroadcastDimensions\<close> are taken as
  parameters: every function that calls them receives the pair as a record.
\<close>

record XlaHelpers =
  Promote :: "XlaOp \<Rightarrow> XlaOp \<Rightarrow> XlaOp \<times> XlaOp"
  getBroadcastDimensions :: "XlaOp \<Rightarrow> XlaOp \<Rightarrow> int list"

text \<open>
  Modelled from the spec: \<^verbatim>\<open>RngUniform\<close> of \<^verbatim>\<open>random.h\<close> is missing from the source
  files. It draws uniform noise of the requested shape between the two bounds from the
  seed value; the model keeps it as one instruction of the graph.
\<close>

definition RngUniform :: "XlaOp \<Rightarrow> Shape \<Rightarrow> XlaOp \<Rightarrow> XlaOp \<Rightarrow> XlaOp" where
  "RngUniform rng_seed shape low high = RngUniformOp rng_seed shape low high"

text \<open>
  \<^verbatim>\<open>c10::Symbol\<close>: the operator tags of the host framework. The six comparison tags are
  named; every other tag is \<open>aten_other\<close> with its qualified name.
\<close>

datatype Symbol =
    aten_ne | aten_eq | aten_ge | aten_le | aten_gt | aten_lt
  | aten_other string

fun toQualString :: "Symbol \<Rightarrow> string" where
  "toQualString aten_ne = ''aten::ne''"
| "toQualString aten_eq = ''aten::eq''"
| "toQualString aten_ge = ''aten::ge''"
| "toQualString aten_le = ''aten::le''"
| "toQualString aten_gt = ''aten::gt''"
| "toQualString aten_lt = ''aten::lt''"
| "toQualString (aten_other s) = s"

text \<open>Sequencing of calls that can abort: the first abort is the result.\<close>

fun and_then :: "fatal + 'a \<Rightarrow> ('a \<Rightarrow> fatal + 'b) \<Rightarrow> fatal + 'b" where
  "and_then (Inl e) f = Inl e"
| "and_then (Inr x) f = f x"

subsection \<open>The operators\<close>

definition BuildComparisonOp :: "XlaHelpers \<Rightarrow> Symbol \<Rightarrow> XlaOp \<Rightarrow> XlaOp \<Rightarrow> fatal + XlaOp" where
  "BuildComparisonOp h kind lhs0 rhs0 =
     (let lhs = fst (Promote h lhs0 rhs0);
          rhs = snd (Promote h lhs0 rhs0)
      in case kind of
           aten_ne \<Rightarrow> Inr (Compare kNe lhs rhs (getBroadcastDimensions h lhs rhs))
         | aten_eq \<Rightarrow> Inr (Compare kEq lhs rhs (getBroadcastDimensions h lhs rhs))
         | aten_ge \<Rightarrow> Inr (Compare kGe lhs rhs (getBroadcastDimensions h lhs rhs))
         | aten_le \<Rightarrow> Inr (Compare kLe lhs rhs (getBroadcastDimensions h lhs rhs))
         | aten_gt \<Rightarrow> Inr (Compare kGt lhs rhs (getBroadcastDimensions h lhs rhs))
         | aten_lt \<Rightarrow> Inr (Compare kLt lhs rhs (getBroadcastDimensions h lhs rhs))
         | aten_other s \<Rightarrow>
             Inl (XLA_ERROR (''Invalid comparison operator kind: '' @ toQualString kind)))"

definition Between :: "XlaHelpers \<Rightarrow> XlaOp \<Rightarrow> Scalar \<Rightarrow> Scalar \<Rightarrow> fatal + XlaOp" where
  "Between h input min_val max_val =
     (let shape = ShapeOfXlaOp input;
          elem_type = element_type shape
      in and_then (BuildComparisonOp h aten_ge input (ScalarValue_at min_val elem_type))
           (\<lambda>check_low.
              and_then (BuildComparisonOp h aten_le input (ScalarValue_at max_val elem_type))
                (\<lambda>check_high. Inr (Binary kAnd check_low check_high []))))"

definition BuildHardshrink :: "XlaHelpers \<Rightarrow> XlaOp \<Rightarrow> XlaOp \<Rightarrow> fatal + XlaOp" where
  "BuildHardshrink h input lambda0 =
     (let shape = ShapeOfXlaOp input;
          input_element_type = element_type shape;
          zero = Zero input_element_type;
          lambda = MaybeConvertTo lambda0 input_element_type
      in and_then (BuildComparisonOp h aten_ge input (Binary kSub zero lambda []))
           (\<lambda>check_low.
              and_then (BuildComparisonOp h aten_le input lambda)
                (\<lambda>check_high.
                   let between = Binary kAnd check_low check_high []
                   in Inr (Select between zero input))))"

definition BuildHardSwishBackward :: "XlaHelpers \<Rightarrow> XlaOp \<Rightarrow> XlaOp \<Rightarrow> fatal + XlaOp" where
  "BuildHardSwishBackward h grad_output input =
     (let shape = ShapeOfXlaOp input;
          three = ScalarValue (RealLit 3) (element_type shape);
          zero = Zero (element_type shape);
          pointfive = ScalarValue (RealLit (1 / 2)) (element_type shape)
      in and_then (Between h input (ScalarDouble (- 3)) (ScalarDouble 3))
           (\<lambda>between.
              let stepone =
                    Select between
                      (Binary kMul grad_output
                         (Binary kAdd pointfive (Binary kDiv input three []) []) [])
                      zero
              in Inr (Select (Compare kGe input three []) grad_output stepone)))"

definition BuildSoftshrink :: "XlaOp \<Rightarrow> XlaOp \<Rightarrow> XlaOp" where
  "BuildSoftshrink input lambda0 =
     (let input_shape = ShapeOfXlaOp input;
          input_element_type = element_type input_shape;
          lambda = MaybeConvertTo lambda0 input_element_type;
          zero = Zero input_element_type;
          toTheLeft = Compare kLt input (Unary kNeg lambda) [];
          toTheRight = Compare kGt input lambda []
      in Select toTheLeft (Binary kAdd input lambda [])
           (Select toTheRight (Binary kSub input lambda []) zero))"

definition BuildShrinkBackward :: "XlaHelpers \<Rightarrow> XlaOp \<Rightarrow> XlaOp \<Rightarrow> XlaOp \<Rightarrow> fatal + XlaOp" where
  "BuildShrinkBackward h grad_output input lambda0 =
     (let shape = ShapeOfXlaOp input;
          input_element_type = element_type shape;
          zero = Zero input_element_type;
          lambda = MaybeConvertTo lambda0 input_element_type
      in and_then (BuildComparisonOp h aten_ge input (Binary kSub zero lambda []))
           (\<lambda>check_low.
              and_then (BuildComparisonOp h aten_le input lambda)
                (\<lambda>check_high.
                   let between = Binary kAnd check_low check_high []
                   in Inr (Select between zero grad_output))))"

definition BuildLeakyReluBackward :: "XlaOp \<Rightarrow> XlaOp \<Rightarrow> XlaOp \<Rightarrow> XlaOp" where
  "BuildLeakyReluBackward grad_output input negative_slope0 =
     (let input_shape = ShapeOfXlaOp input;
          negative_slope = MaybeConvertTo negative_slope0 (element_type input_shape);
          zero = Zero (element_type input_shape)
      in Select (Compare kGt input zero []) grad_output
           (Binary kMul negative_slope grad_output []))"

definition BuildLeakyRelu :: "XlaOp \<Rightarrow> XlaOp \<Rightarrow> XlaOp" where
  "BuildLeakyRelu input negative_slope = BuildLeakyReluBackward input input negative_slope"

text \<open>The result vector of \<^verbatim>\<open>BuildRrelu\<close> is the list \<open>[output, noise]\<close>.\<close>

definition BuildRrelu :: "XlaOp \<Rightarrow> Scalar \<Rightarrow> Scalar \<Rightarrow> bool \<Rightarrow> XlaOp \<Rightarrow> XlaOp list" where
  "BuildRrelu input lower upper training rng_seed =
     (let shape = ShapeOfXlaOp input;
          zero = Zero (element_type shape);
          one = One (element_type shape)
      in if training
         then let low = ScalarValue_at lower (element_type shape);
                  high = ScalarValue_at upper (element_type shape);
                  slope = RngUniform rng_seed
                            \<lparr>element_type = element_type shape, dimensions = []\<rparr> low high;
                  noise = Select (Compare kGt input zero []) one slope;
                  output = Binary kMul input noise []
              in [output, noise]
         else let negative_slope =
                    ScalarValue (RealLit ((toDouble lower + toDouble upper) / 2))
                      (element_type shape);
                  noise = Broadcast zero (dimensions shape);
                  output = BuildLeakyRelu input negative_slope
              in [output, noise])"

definition BuildSign :: "(PrimitiveType \<Rightarrow> PrimitiveType) \<Rightarrow> XlaOp \<Rightarrow> XlaOp" where
  "BuildSign dev input =
     (let num_input = ConvertToNumeric1 dev input;
          shape = ShapeOfXlaOp num_input;
          zero = Zero (element_type shape);
          sign = (if IsUnsignedIntegralType (element_type shape)
                  then ConvertElementType (Compare kGt num_input zero []) (element_type shape)
                  else Unary kSign num_input)
      in Select (Compare kNe num_input num_input []) (Broadcast zero (dimensions shape)) sign)"

definition BuildAbs :: "XlaOp \<Rightarrow> XlaOp" where
  "BuildAbs input =
     (let shape = ShapeOfXlaOp input
      in if IsUnsignedIntegralType (element_type shape) then input else Unary kAbs input)"

definition BuildSoftplus :: "XlaOp \<Rightarrow> XlaOp \<Rightarrow> XlaOp \<Rightarrow> XlaOp" where
  "BuildSoftplus input beta threshold =
     Select (Compare kGt (Binary kMul input beta []) threshold []) input
       (Binary kDiv (Unary kLog1p (Unary kExp (Binary kMul input beta []))) beta [])"


definition BuildElu :: "XlaOp \<Rightarrow> XlaOp \<Rightarrow> XlaOp \<Rightarrow> XlaOp \<Rightarrow> XlaOp" where
  "BuildElu input alpha0 scale0 input_scale0 =
     (let shape = ShapeOfXlaOp input;
          alpha = MaybeConvertTo alpha0 (element_type shape);
          scale = MaybeConvertTo scale0 (element_type shape);
          input_scale = MaybeConvertTo input_scale0 (element_type shape);
          scaled_input = Binary kMul input input_scale [];
          zero = Zero (element_type shape);
          one = ScalarValue (RealLit 1) (element_type shape)
      in Binary kMul
           (Select (Compare kLe input zero [])
              (Binary kMul alpha (Binary kSub (Unary kExp scaled_input) one []) []) input)
           scale [])"

section \<open>Meaning of the instructions\<close>

text \<open>
  What a graph computes for one element of its tensors, following the operation
  semantics of XLA. All instructions the modelled functions emit are elementwise, so one
  element of the result depends on the same element of each operand (a scalar operand
  is broadcast). Values of a floating kind are the real numbers extended by the two
  infinities and NaN; rounding to the precision of the kind and the sign of zero are
  not modelled. Complex kinds and conversions from a floating kind to an integral kind
  have no value here (\<open>None\<close>).
\<close>

datatype fval = NaN | MInf | Fin real | PInf

datatype val = VPred bool | VInt int | VFloat fval

subsection \<open>Integers of a given width\<close>

definition bit_width :: "PrimitiveType \<Rightarrow> nat" where
  "bit_width t = nat (ByteSizeOfPrimitiveType t * CHAR_BIT)"

text \<open>Two's-complement wrap-around of an integer into the range of an integral kind.\<close>

definition wrap :: "PrimitiveType \<Rightarrow> int \<Rightarrow> int" where
  "wrap t n =
     (if IsSignedIntegralType t
      then (n + 2 ^ (bit_width t - 1)) mod 2 ^ bit_width t - 2 ^ (bit_width t - 1)
      else n mod 2 ^ bit_width t)"

fun has_kind :: "PrimitiveType \<Rightarrow> val \<Rightarrow> bool" where
  "has_kind t (VPred b) = (t = PRED)"
| "has_kind t (VInt n) = (IsIntegralType t \<and> wrap t n = n)"
| "has_kind t (VFloat f) = IsFloatingPointType t"

definition trunc_real :: "real \<Rightarrow> int" where
  "trunc_real r = (if 0 \<le> r then \<lfloor>r\<rfloor> else \<lceil>r\<rceil>)"

definition trunc_div :: "int \<Rightarrow> int \<Rightarrow> int" where
  "trunc_div a b = (if (a < 0) = (b < 0) then \<bar>a\<bar> div \<bar>b\<bar> else - (\<bar>a\<bar> div \<bar>b\<bar>))"

subsection \<open>Extended real arithmetic\<close>

fun fneg :: "fval \<Rightarrow> fval" where
  "fneg NaN = NaN"
| "fneg MInf = PInf"
| "fneg PInf = MInf"
| "fneg (Fin a) = Fin (- a)"

fun fadd :: "fval \<Rightarrow> fval \<Rightarrow> fval" where
  "fadd NaN y = NaN"
| "fadd x NaN = NaN"
| "fadd (Fin a) (Fin b) = Fin (a + b)"
| "fadd PInf MInf = NaN"
| "fadd MInf PInf = NaN"
| "fadd PInf y = PInf"
| "fadd x PInf = PInf"
| "fadd MInf y = MInf"
| "fadd x MInf = MInf"

definition fsub :: "fval \<Rightarrow> fval \<Rightarrow> fval" where
  "fsub x y = fadd x (fneg y)"

text \<open>The sign of an extended real that is not NaN: \<open>-1\<close>, \<open>0\<close> or \<open>1\<close>.\<close>

fun fsgn :: "fval \<Rightarrow> real" where
  "fsgn NaN = 0"
| "fsgn MInf = - 1"
| "fsgn PInf = 1"
| "fsgn (Fin a) = sgn a"

definition inf_of_sign :: "real \<Rightarrow> fval" where
  "inf_of_sign s = (if s = 0 then NaN else if 0 < s then PInf else MInf)"

fun fmul :: "fval \<Rightarrow> fval \<Rightarrow> fval" where
  "fmul NaN y = NaN"
| "fmul x NaN = NaN"
| "fmul (Fin a) (Fin b) = Fin (a * b)"
| "fmul x y = inf_of_sign (fsgn x * fsgn y)"

text \<open>
  Division: a finite number divided by zero is the infinity of its sign (NaN for
  \<open>0 / 0\<close>), a finite number divided by an infinity is zero.
\<close>

fun fdiv :: "fval \<Rightarrow> fval \<Rightarrow> fval" where
  "fdiv NaN y = NaN"
| "fdiv x NaN = NaN"
| "fdiv (Fin a) (Fin b) = (if b = 0 then inf_of_sign (sgn a) else Fin (a / b))"
| "fdiv (Fin a) y = Fin 0"
| "fdiv x (Fin b) = inf_of_sign (fsgn x * (if b < 0 then - 1 else 1))"
| "fdiv x y = NaN"

fun flt :: "fval \<Rightarrow> fval \<Rightarrow> bool" where
  "flt NaN y = False"
| "flt x NaN = False"
| "flt (Fin a) (Fin b) = (a < b)"
| "flt x MInf = False"
| "flt MInf y = True"
| "flt PInf y = False"
| "flt x PInf = True"

definition feq :: "fval \<Rightarrow> fval \<Rightarrow> bool" where
  "feq x y = (x \<noteq> NaN \<and> x = y)"

definition fle :: "fval \<Rightarrow> fval \<Rightarrow> bool" where
  "fle x y = (flt x y \<or> feq x y)"

definition fmax :: "fval \<Rightarrow> fval \<Rightarrow> fval" where
  "fmax x y = (if x = NaN \<or> y = NaN then NaN else if flt x y then y else x)"

definition fmin :: "fval \<Rightarrow> fval \<Rightarrow> fval" where
  "fmin x y = (if x = NaN \<or> y = NaN then NaN else if flt y x then y else x)"

fun fabs :: "fval \<Rightarrow> fval" where
  "fabs NaN = NaN"
| "fabs MInf = PInf"
| "fabs PInf = PInf"
| "fabs (Fin a) = Fin \<bar>a\<bar>"

fun fsign :: "fval \<Rightarrow> fval" where
  "fsign NaN = NaN"
| "fsign x = Fin (fsgn x)"

fun fexp :: "fval \<Rightarrow> fval" where
  "fexp NaN = NaN"
| "fexp MInf = Fin 0"
| "fexp PInf = PInf"
| "fexp (Fin a) = Fin (exp a)"

fun flog :: "fval \<Rightarrow> fval" where
  "flog NaN = NaN"
| "flog MInf = NaN"
| "flog PInf = PInf"
| "flog (Fin a) = (if 0 < a then Fin (ln a) else if a = 0 then MInf else NaN)"

fun flog1p :: "fval \<Rightarrow> fval" where
  "flog1p (Fin a) = flog (Fin (1 + a))"
| "flog1p x = flog x"

subsection \<open>Constants, conversions and the elementwise instructions\<close>

definition const_val :: "PrimitiveType \<Rightarrow> Literal \<Rightarrow> val option" where
  "const_val t l =
     (if t = PRED
      then (case l of IntLit n \<Rightarrow> Some (VPred (n \<noteq> 0))
                    | RealLit r \<Rightarrow> Some (VPred (r \<noteq> 0))
                    | NanLit \<Rightarrow> None)
      else if IsIntegralType t
      then (case l of IntLit n \<Rightarrow> Some (VInt (wrap t n))
                    | RealLit r \<Rightarrow> Some (VInt (wrap t (trunc_real r)))
                    | NanLit \<Rightarrow> None)
      else if IsFloatingPointType t
      then (case l of IntLit n \<Rightarrow> Some (VFloat (Fin (real_of_int n)))
                    | RealLit r \<Rightarrow> Some (VFloat (Fin r))
                    | NanLit \<Rightarrow> Some (VFloat NaN))
      else None)"

fun convert_val :: "PrimitiveType \<Rightarrow> val \<Rightarrow> val option" where
  "convert_val t (VPred b) =
     (if t = PRED then Some (VPred b)
      else if IsIntegralType t then Some (VInt (if b then 1 else 0))
      else if IsFloatingPointType t then Some (VFloat (Fin (if b then 1 else 0)))
      else None)"
| "convert_val t (VInt n) =
     (if t = PRED then Some (VPred (n \<noteq> 0))
      else if IsIntegralType t then Some (VInt (wrap t n))
      else if IsFloatingPointType t then Some (VFloat (Fin (real_of_int n)))
      else None)"
| "convert_val t (VFloat f) = (if IsFloatingPointType t then Some (VFloat f) else None)"

fun unary_val :: "UnaryOp \<Rightarrow> PrimitiveType \<Rightarrow> val \<Rightarrow> val option" where
  "unary_val kNeg t (VInt n) = Some (VInt (wrap t (- n)))"
| "unary_val kAbs t (VInt n) = Some (VInt (wrap t \<bar>n\<bar>))"
| "unary_val kSign t (VInt n) = Some (VInt (sgn n))"
| "unary_val kNeg t (VFloat x) = Some (VFloat (fneg x))"
| "unary_val kAbs t (VFloat x) = Some (VFloat (fabs x))"
| "unary_val kSign t (VFloat x) = Some (VFloat (fsign x))"
| "unary_val kExp t (VFloat x) = Some (VFloat (fexp x))"
| "unary_val kLog t (VFloat x) = Some (VFloat (flog x))"
| "unary_val kLog1p t (VFloat x) = Some (VFloat (flog1p x))"
| "unary_val u t v = None"

text \<open>
  Shifts by an amount outside \<open>0 ..< bit_width t\<close> give \<open>0\<close>, or \<open>-1\<close> for the
  arithmetic shift of a negative number. Integer division by zero has no value here.
\<close>

fun int_binary :: "BinaryOp \<Rightarrow> PrimitiveType \<Rightarrow> int \<Rightarrow> int \<Rightarrow> val option" where
  "int_binary kAdd t a b = Some (VInt (wrap t (a + b)))"
| "int_binary kSub t a b = Some (VInt (wrap t (a - b)))"
| "int_binary kMul t a b = Some (VInt (wrap t (a * b)))"
| "int_binary kDiv t a b = (if b = 0 then None else Some (VInt (wrap t (trunc_div a b))))"
| "int_binary kMax t a b = Some (VInt (max a b))"
| "int_binary kMin t a b = Some (VInt (min a b))"
| "int_binary kAnd t a b = Some (VInt (a AND b))"
| "int_binary kOr t a b = Some (VInt (a OR b))"
| "int_binary kShiftLeft t a b =
     Some (VInt (if 0 \<le> b \<and> b < int (bit_width t) then wrap t (a * 2 ^ nat b) else 0))"
| "int_binary kShiftRightArithmetic t a b =
     Some (VInt (if 0 \<le> b \<and> b < int (bit_width t) then a div 2 ^ nat b
                 else if a < 0 then - 1 else 0))"
| "int_binary kShiftRightLogical t a b =
     Some (VInt (if 0 \<le> b \<and> b < int (bit_width t)
                 then wrap t ((a mod 2 ^ bit_width t) div 2 ^ nat b) else 0))"

fun float_binary :: "BinaryOp \<Rightarrow> fval \<Rightarrow> fval \<Rightarrow> val option" where
  "float_binary kAdd x y = Some (VFloat (fadd x y))"
| "float_binary kSub x y = Some (VFloat (fsub x y))"
| "float_binary kMul x y = Some (VFloat (fmul x y))"
| "float_binary kDiv x y = Some (VFloat (fdiv x y))"
| "float_binary kMax x y = Some (VFloat (fmax x y))"
| "float_binary kMin x y = Some (VFloat (fmin x y))"
| "float_binary b x y = None"

fun pred_binary :: "BinaryOp \<Rightarrow> bool \<Rightarrow> bool \<Rightarrow> val option" where
  "pred_binary kAnd p q = Some (VPred (p \<and> q))"
| "pred_binary kOr p q = Some (VPred (p \<or> q))"
| "pred_binary b p q = None"

fun binary_val :: "BinaryOp \<Rightarrow> PrimitiveType \<Rightarrow> val \<Rightarrow> val \<Rightarrow> val option" where
  "binary_val b t (VInt x) (VInt y) = int_binary b t x y"
| "binary_val b t (VFloat x) (VFloat y) = float_binary b x y"
| "binary_val b t (VPred p) (VPred q) = pred_binary b p q"
| "binary_val b t v w = None"

text \<open>Comparisons: every comparison with NaN is false, except \<open>kNe\<close>, which is true.\<close>

fun int_compare :: "ComparisonDirection \<Rightarrow> int \<Rightarrow> int \<Rightarrow> bool" where
  "int_compare kEq a b = (a = b)"
| "int_compare kNe a b = (a \<noteq> b)"
| "int_compare kGe a b = (a \<ge> b)"
| "int_compare kGt a b = (a > b)"
| "int_compare kLe a b = (a \<le> b)"
| "int_compare kLt a b = (a < b)"

fun float_compare :: "ComparisonDirection \<Rightarrow> fval \<Rightarrow> fval \<Rightarrow> bool" where
  "float_compare kEq x y = feq x y"
| "float_compare kNe x y = (\<not> feq x y)"
| "float_compare kGe x y = fle y x"
| "float_compare kGt x y = flt y x"
| "float_compare kLe x y = fle x y"
| "float_compare kLt x y = flt x y"

fun compare_val :: "ComparisonDirection \<Rightarrow> val \<Rightarrow> val \<Rightarrow> val option" where
  "compare_val d (VInt a) (VInt b) = Some (VPred (int_compare d a b))"
| "compare_val d (VFloat x) (VFloat y) = Some (VPred (float_compare d x y))"
| "compare_val d (VPred p) (VPred q) =
     Some (VPred (int_compare d (if p then 1 else 0) (if q then 1 else 0)))"
| "compare_val d v w = None"

fun select_val :: "val \<Rightarrow> val \<Rightarrow> val \<Rightarrow> val option" where
  "select_val (VPred c) on_true on_false = Some (if c then on_true else on_false)"
| "select_val p on_true on_false = None"

text \<open>
  \<^verbatim>\<open>xla::Clamp(min, operand, max)\<close> computes \<open>min (max operand min) max\<close>; the
  constructor \<open>Clamp\<close> keeps the three operands in this order.
\<close>

definition clamp_val :: "PrimitiveType \<Rightarrow> val \<Rightarrow> val \<Rightarrow> val \<Rightarrow> val option" where
  "clamp_val t lo operand hi =
     (case binary_val kMax t operand lo of
        None \<Rightarrow> None
      | Some m \<Rightarrow> binary_val kMin t m hi)"

text \<open>
  Modelled from the spec: the value of the missing \<^verbatim>\<open>RngUniform\<close> lies between its two
  bounds. The draw is a parameter of the evaluation: a fraction \<open>u\<close>, cut to the unit
  interval, of the way from \<open>low\<close> to \<open>high\<close>.
\<close>

fun uniform_val :: "real \<Rightarrow> val \<Rightarrow> val \<Rightarrow> val option" where
  "uniform_val u (VFloat (Fin lo)) (VFloat (Fin hi)) =
     Some (VFloat (Fin (lo + max 0 (min 1 u) * (hi - lo))))"
| "uniform_val u v w = None"

fun opt2 :: "('a \<Rightarrow> 'b \<Rightarrow> 'c option) \<Rightarrow> 'a option \<Rightarrow> 'b option \<Rightarrow> 'c option" where
  "opt2 f (Some a) (Some b) = f a b"
| "opt2 f x y = None"

fun opt3 ::
  "('a \<Rightarrow> 'b \<Rightarrow> 'c \<Rightarrow> 'd option) \<Rightarrow> 'a option \<Rightarrow> 'b option \<Rightarrow> 'c option \<Rightarrow> 'd option" where
  "opt3 f (Some a) (Some b) (Some c) = f a b c"
| "opt3 f x y z = None"

subsection \<open>Evaluation of a graph at one element\<close>

text \<open>
  The environment gives the element of every \<open>Parameter\<close> (by its number) and the draw
  of the random instruction. A parameter whose element does not belong to its declared
  kind has no value.
\<close>

record environment =
  params :: "val list"
  draw :: real

fun eval :: "environment \<Rightarrow> XlaOp \<Rightarrow> val option" where
  "eval env (Parameter n s) =
     (if n < length (params env) \<and> has_kind (element_type s) (params env ! n)
      then Some (params env ! n) else None)"
| "eval env (ConstantLiteral t l) = const_val t l"
| "eval env (ConvertElementType x t) = Option.bind (eval env x) (convert_val t)"
| "eval env (Unary u x) = Option.bind (eval env x) (unary_val u (TypeOfXlaOp x))"
| "eval env (Binary b x y ds) = opt2 (binary_val b (TypeOfXlaOp x)) (eval env x) (eval env y)"
| "eval env (Compare d x y ds) = opt2 (compare_val d) (eval env x) (eval env y)"
| "eval env (Select p x y) = opt3 select_val (eval env p) (eval env x) (eval env y)"
| "eval env (Clamp lo x hi) =
     opt3 (clamp_val (TypeOfXlaOp x)) (eval env lo) (eval env x) (eval env hi)"
| "eval env (Broadcast x ds) = eval env x"
| "eval env (RngUniformOp seed s lo hi) = opt2 (uniform_val (draw env)) (eval env lo) (eval env hi)"

subsection \<open>Operands of one kind\<close>

text \<open>
  \<open>same_kind_operands g\<close>: every instruction of \<open>g\<close> with two or three data operands
  is applied to operands of one element kind (the predicate of a \<open>Select\<close> is \<open>PRED\<close>).
\<close>

fun same_kind_operands :: "XlaOp \<Rightarrow> bool" where
  "same_kind_operands (Parameter n s) = True"
| "same_kind_operands (ConstantLiteral t l) = True"
| "same_kind_operands (ConvertElementType x t) = same_kind_operands x"
| "same_kind_operands (Unary u x) = same_kind_operands x"
| "same_kind_operands (Binary b x y ds) =
     (same_kind_operands x \<and> same_kind_operands y \<and> TypeOfXlaOp x = TypeOfXlaOp y)"
| "same_kind_operands (Compare d x y ds) =
     (same_kind_operands x \<and> same_kind_operands y \<and> TypeOfXlaOp x = TypeOfXlaOp y)"
| "same_kind_operands (Select p x y) =
     (same_kind_operands p \<and> same_kind_operands x \<and> same_kind_operands y \<and>
      TypeOfXlaOp p = PRED \<and> TypeOfXlaOp x = TypeOfXlaOp y)"
| "same_kind_operands (Clamp lo x hi) =
     (same_kind_operands lo \<and> same_kind_operands x \<and> same_kind_operands hi \<and>
      TypeOfXlaOp lo = TypeOfXlaOp x \<and> TypeOfXlaOp hi = TypeOfXlaOp x)"
| "same_kind_operands (Broadcast x ds) = same_kind_operands x"
| "same_kind_operands (RngUniformOp seed s lo hi) =
     (same_kind_operands seed \<and> same_kind_operands lo \<and> same_kind_operands hi \<and>
      TypeOfXlaOp lo = element_type s \<and> TypeOfXlaOp hi = element_type s)"

subsection \<open>Helpers for stating the properties\<close>

text \<open>A graph over one tensor parameter, evaluated element by element.\<close>

definition eval_elements :: "XlaOp \<Rightarrow> val list \<Rightarrow> val option list" where
  "eval_elements g xs = map (\<lambda>x. eval \<lparr>params = [x], draw = 0\<rparr> g) xs"

text \<open>
  Promotion of two operands that already have one element kind only broadcasts them,
  which leaves every element as it is.
\<close>

definition Promote_preserves_elements :: "XlaHelpers \<Rightarrow> bool" where
  "Promote_preserves_elements h =
     (\<forall>env l r. TypeOfXlaOp l = TypeOfXlaOp r \<longrightarrow>
        eval env (fst (Promote h l r)) = eval env l \<and>
        eval env (snd (Promote h l r)) = eval env r)"

text \<open>
  Promotion yields two operands of one element kind, and adds only instructions whose
  operands have one kind.
\<close>

definition Promote_gives_one_kind :: "XlaHelpers \<Rightarrow> bool" where
  "Promote_gives_one_kind h =
     (\<forall>l r. TypeOfXlaOp (fst (Promote h l r)) = TypeOfXlaOp (snd (Promote h l r)) \<and>
        (same_kind_operands l \<and> same_kind_operands r \<longrightarrow>
           same_kind_operands (fst (Promote h l r)) \<and>
           same_kind_operands (snd (Promote h l r))))"

text \<open>
  An instance of the helpers for closed examples: promotion converts the second operand
  to the kind of the first, unless it has that kind already, and there are no broadcast
  dimensions. Operands of one kind are returned as they are.
\<close>

definition promote_to_first :: XlaHelpers where
  "promote_to_first =
     \<lparr>Promote = (\<lambda>l r. (l, MaybeConvertTo r (TypeOfXlaOp l))),
      getBroadcastDimensions = (\<lambda>l r. [])\<rparr>"

text \<open>A device kind resolver that stores every kind as it is, for closed examples.\<close>

definition native_device :: "PrimitiveType \<Rightarrow> PrimitiveType" where
  "native_device t = t"

text \<open>
  The hard-swish backward formula as the specification words it, with a membership
  test that is strict at both ends.
\<close>

definition hard_swish_backward_strict :: "real \<Rightarrow> real \<Rightarrow> real" where
  "hard_swish_backward_strict g x =
     (if 3 \<le> x then g else if - 3 < x \<and> x < 3 then g * (1 / 2 + x / 3) else 0)"

text \<open>
  An integer is representable in the narrower of two widths, read with the signedness
  of the wide kind \<open>type\<close>.
\<close>

definition fits_narrow :: "PrimitiveType \<Rightarrow> PrimitiveType \<Rightarrow> int \<Rightarrow> bool" where
  "fits_narrow type narrow_type v =
     (if IsSignedIntegralType type
      then - (2 ^ (bit_width narrow_type - 1)) \<le> v \<and> v < 2 ^ (bit_width narrow_type - 1)
      else 0 \<le> v \<and> v < 2 ^ bit_width narrow_type)"



section \<open>Auxiliary facts\<close>

subsection \<open>Kinds\<close>

lemma floating_kind:
  "IsFloatingPointType t \<Longrightarrow>
     t \<noteq> PRED \<and> \<not> IsUnsignedIntegralType t \<and> \<not> IsSignedIntegralType t \<and> \<not> IsIntegralType t"
  by (cases t) (simp_all add: IsIntegralType_def)

lemma signed_kind:
  "IsSignedIntegralType t \<Longrightarrow>
     t \<noteq> PRED \<and> \<not> IsUnsignedIntegralType t \<and> \<not> IsFloatingPointType t \<and> IsIntegralType t"
  by (cases t) (simp_all add: IsIntegralType_def)

lemma unsigned_kind:
  "IsUnsignedIntegralType t \<Longrightarrow>
     t \<noteq> PRED \<and> \<not> IsSignedIntegralType t \<and> \<not> IsFloatingPointType t \<and> IsIntegralType t"
  by (cases t) (simp_all add: IsIntegralType_def)

lemma Type_ScalarValue [simp]: "TypeOfXlaOp (ScalarValue l t) = t"
  by (simp add: ScalarValue_def TypeOfXlaOp_def)

lemma Type_ScalarValue_at [simp]: "TypeOfXlaOp (ScalarValue_at s t) = t"
  by (cases s) simp_all

lemma Type_Zero [simp]: "TypeOfXlaOp (Zero t) = t"
  by (simp add: Zero_def TypeOfXlaOp_def)

lemma Type_MaybeConvertTo [simp]: "TypeOfXlaOp (MaybeConvertTo x t) = t"
  by (simp add: MaybeConvertTo_def TypeOfXlaOp_def)

lemma Type_instructions [simp]:
  "TypeOfXlaOp (Binary b x y ds) = TypeOfXlaOp x"
  "TypeOfXlaOp (Unary u x) = TypeOfXlaOp x"
  "TypeOfXlaOp (Compare d x y ds) = PRED"
  "TypeOfXlaOp (Select p x y) = TypeOfXlaOp x"
  "TypeOfXlaOp (Parameter n s) = element_type s"
  by (simp_all add: TypeOfXlaOp_def)

lemma same_kind_MaybeConvertTo [simp]:
  "same_kind_operands (MaybeConvertTo x t) = same_kind_operands x"
  by (simp add: MaybeConvertTo_def)

lemma same_kind_Zero [simp]: "same_kind_operands (Zero t)"
  by (simp add: Zero_def)

lemma same_kind_ScalarValue [simp]: "same_kind_operands (ScalarValue l t)"
  by (simp add: ScalarValue_def)

subsection \<open>Narrowing to single precision\<close>








subsection \<open>Values of constants\<close>

lemma wrap_zero: "IsIntegralType t \<Longrightarrow> wrap t 0 = 0"
  by (cases t) (simp_all add: wrap_def bit_width_def CHAR_BIT_def IsIntegralType_def)

lemma eval_Zero_float: "IsFloatingPointType t \<Longrightarrow> eval env (Zero t) = Some (VFloat (Fin 0))"
  by (simp add: Zero_def const_val_def floating_kind)

lemma eval_Zero_int: "IsIntegralType t \<Longrightarrow> eval env (Zero t) = Some (VInt 0)"
  by (cases t) (simp_all add: Zero_def const_val_def wrap_zero IsIntegralType_def)

lemma eval_One_float: "IsFloatingPointType t \<Longrightarrow> eval env (One t) = Some (VFloat (Fin 1))"
  by (simp add: One_def const_val_def floating_kind)

lemma eval_RealLit_float:
  "IsFloatingPointType t \<Longrightarrow> eval env (ScalarValue (RealLit r) t) = Some (VFloat (Fin r))"
  by (simp add: ScalarValue_def const_val_def floating_kind)

lemma eval_ScalarValue_at_float:
  "IsFloatingPointType t \<Longrightarrow> eval env (ScalarValue_at s t) = Some (VFloat (Fin (toDouble s)))"
  by (cases s) (simp_all add: ScalarValue_def const_val_def floating_kind)


subsection \<open>The helpers of the closed examples\<close>

lemma promote_to_first_preserves: "Promote_preserves_elements promote_to_first"
  by (simp add: Promote_preserves_elements_def promote_to_first_def MaybeConvertTo_def)

lemma promote_to_first_one_kind: "Promote_gives_one_kind promote_to_first"
  by (simp add: Promote_gives_one_kind_def promote_to_first_def)

subsection \<open>Comparisons\<close>

lemma BuildComparisonOp_eval:
  assumes "Promote_preserves_elements h" and "TypeOfXlaOp l = TypeOfXlaOp r"
  shows "and_then (BuildComparisonOp h aten_ge l r) f =
           f (projr (BuildComparisonOp h aten_ge l r))"
    and "eval env (projr (BuildComparisonOp h aten_ge l r)) =
           opt2 (compare_val kGe) (eval env l) (eval env r)"
    and "and_then (BuildComparisonOp h aten_le l r) f =
           f (projr (BuildComparisonOp h aten_le l r))"
    and "eval env (projr (BuildComparisonOp h aten_le l r)) =
           opt2 (compare_val kLe) (eval env l) (eval env r)"
  using assms by (simp_all add: BuildComparisonOp_def Let_def Promote_preserves_elements_def)

lemma BuildComparisonOp_kinds:
  assumes "Promote_gives_one_kind h" and "same_kind_operands l" and "same_kind_operands r"
    and "k \<in> {aten_ge, aten_le}"
  shows "and_then (BuildComparisonOp h k l r) f = f (projr (BuildComparisonOp h k l r))"
    and "same_kind_operands (projr (BuildComparisonOp h k l r))"
    and "TypeOfXlaOp (projr (BuildComparisonOp h k l r)) = PRED"
  using assms by (auto simp add: BuildComparisonOp_def Let_def Promote_gives_one_kind_def)

lemma Between_structure:
  "Between h input lo hi =
     Inr (Binary kAnd
            (Compare kGe (fst (Promote h input (ScalarValue_at lo (TypeOfXlaOp input))))
               (snd (Promote h input (ScalarValue_at lo (TypeOfXlaOp input))))
               (getBroadcastDimensions h
                  (fst (Promote h input (ScalarValue_at lo (TypeOfXlaOp input))))
                  (snd (Promote h input (ScalarValue_at lo (TypeOfXlaOp input))))))
            (Compare kLe (fst (Promote h input (ScalarValue_at hi (TypeOfXlaOp input))))
               (snd (Promote h input (ScalarValue_at hi (TypeOfXlaOp input))))
               (getBroadcastDimensions h
                  (fst (Promote h input (ScalarValue_at hi (TypeOfXlaOp input))))
                  (snd (Promote h input (ScalarValue_at hi (TypeOfXlaOp input)))))) [])"
  by (simp add: Between_def BuildComparisonOp_def Let_def TypeOfXlaOp_def)

lemma Between_eval:
  assumes "Promote_preserves_elements h" and "IsFloatingPointType (TypeOfXlaOp input)"
    and "eval env input = Some (VFloat (Fin x))"
  shows "\<not> isl (Between h input (ScalarDouble lo) (ScalarDouble hi))"
    and "eval env (projr (Between h input (ScalarDouble lo) (ScalarDouble hi))) =
           Some (VPred (lo \<le> x \<and> x \<le> hi))"
  using assms
  by (auto simp add: Between_def Let_def BuildComparisonOp_eval TypeOfXlaOp_def[symmetric]
      eval_RealLit_float fle_def feq_def)

subsection \<open>The raw mask\<close>

lemma CreateRawMask_eval:
  assumes "IsIntegralType type" and "IsIntegralType narrow_type"
    and "ByteSizeOfPrimitiveType narrow_type < ByteSizeOfPrimitiveType type"
  shows "eval env (CreateRawMask op type (ByteSizeOfPrimitiveType type)
                     (ByteSizeOfPrimitiveType narrow_type)) =
         Some (VInt (if IsSignedIntegralType type then - 1
                     else 2 ^ bit_width narrow_type - 1))"
  using assms
  by (cases type; cases narrow_type)
     (simp_all add: CreateRawMask_def Let_def CHAR_BIT_def IsIntegralType_def op_shl_def
        op_shr_def ScalarValue_def const_val_def wrap_def bit_width_def TypeOfXlaOp_def)

lemma and_low_mask: "(v::int) AND (2 ^ n - 1) = v mod 2 ^ n"
  by (simp add: take_bit_eq_mod[symmetric] take_bit_eq_mask mask_eq_exp_minus_1)

lemma ConvertData_eval:
  assumes "IsIntegralType type" and "IsIntegralType narrow_type"
    and "ByteSizeOfPrimitiveType narrow_type \<le> ByteSizeOfPrimitiveType type"
    and "eval env op = Some (VInt v)"
  shows "\<not> isl (ConvertData op type narrow_type)"
    and "eval env (projr (ConvertData op type narrow_type)) =
           Some (VInt (if IsSignedIntegralType type \<or>
                          ByteSizeOfPrimitiveType narrow_type = ByteSizeOfPrimitiveType type
                       then v else v mod 2 ^ bit_width narrow_type))"
  using assms CreateRawMask_eval[OF assms(1,2), of env op]
  by (auto simp add: ConvertData_def Let_def op_and_def and_low_mask)

lemma fits_narrow_unchanged:
  assumes "fits_narrow type narrow_type v"
  shows "(if IsSignedIntegralType type \<or>
             ByteSizeOfPrimitiveType narrow_type = ByteSizeOfPrimitiveType type
          then v else v mod 2 ^ bit_width narrow_type) = v"
  using assms by (auto simp add: fits_narrow_def)

subsection \<open>The random slope\<close>

lemma uniform_bounds:
  fixes l u d :: real
  assumes "l \<le> u"
  shows "l \<le> l + max 0 (min 1 d) * (u - l)" and "l + max 0 (min 1 d) * (u - l) \<le> u"
proof -
  define c where "c = max 0 (min 1 d)"
  have c: "0 \<le> c" "c \<le> 1" by (simp_all add: c_def)
  have "0 \<le> c * (u - l)" using c assms by simp
  moreover have "c * (u - l) \<le> 1 * (u - l)"
    using c assms by (intro mult_right_mono) simp_all
  ultimately show "l \<le> l + max 0 (min 1 d) * (u - l)" and "l + max 0 (min 1 d) * (u - l) \<le> u"
    by (simp_all add: c_def)
qed

lemma BuildRrelu_training_structure:
  "BuildRrelu input lower upper True seed =
     [Binary kMul input
        (Select (Compare kGt input (Zero (TypeOfXlaOp input)) []) (One (TypeOfXlaOp input))
           (RngUniform seed \<lparr>element_type = TypeOfXlaOp input, dimensions = []\<rparr>
              (ScalarValue_at lower (TypeOfXlaOp input))
              (ScalarValue_at upper (TypeOfXlaOp input)))) [],
      Select (Compare kGt input (Zero (TypeOfXlaOp input)) []) (One (TypeOfXlaOp input))
        (RngUniform seed \<lparr>element_type = TypeOfXlaOp input, dimensions = []\<rparr>
           (ScalarValue_at lower (TypeOfXlaOp input))
           (ScalarValue_at upper (TypeOfXlaOp input)))]"
  by (simp add: BuildRrelu_def Let_def TypeOfXlaOp_def)

lemma BuildRrelu_training_noise:
  assumes "IsFloatingPointType (TypeOfXlaOp input)" and "eval env input = Some (VFloat (Fin x))"
  shows "eval env (BuildRrelu input lower upper True seed ! 1) =
     Some (VFloat (Fin (if 0 < x then 1
        else toDouble lower + max 0 (min 1 (draw env)) * (toDouble upper - toDouble lower))))"
  using assms
  by (simp add: BuildRrelu_def Let_def TypeOfXlaOp_def[symmetric] RngUniform_def
      eval_Zero_float eval_One_float eval_ScalarValue_at_float)

lemma BuildRrelu_training_output:
  assumes "IsFloatingPointType (TypeOfXlaOp input)" and "eval env input = Some (VFloat (Fin x))"
  shows "eval env (BuildRrelu input lower upper True seed ! 0) =
     Some (VFloat (Fin (x * (if 0 < x then 1
        else toDouble lower + max 0 (min 1 (draw env)) * (toDouble upper - toDouble lower)))))"
  using assms
  by (simp add: BuildRrelu_def Let_def TypeOfXlaOp_def[symmetric] RngUniform_def
      eval_Zero_float eval_One_float eval_ScalarValue_at_float)

lemma BuildRrelu_evaluation_mode:
  assumes "IsFloatingPointType (TypeOfXlaOp input)" and "eval env input = Some (VFloat (Fin x))"
  shows "BuildRrelu input lower upper False seed =
           [BuildLeakyRelu input
              (ScalarValue (RealLit ((toDouble lower + toDouble upper) / 2)) (TypeOfXlaOp input)),
            Broadcast (Zero (TypeOfXlaOp input)) (dimensions (ShapeOfXlaOp input))]"
    and "eval env (BuildRrelu input lower upper False seed ! 1) = Some (VFloat (Fin 0))"
    and "eval env (BuildRrelu input lower upper False seed ! 0) =
           Some (VFloat (Fin (if 0 < x then x else (toDouble lower + toDouble upper) / 2 * x)))"
  using assms
  by (simp_all add: BuildRrelu_def BuildLeakyRelu_def BuildLeakyReluBackward_def
      MaybeConvertTo_def Let_def TypeOfXlaOp_def[symmetric] eval_Zero_float eval_RealLit_float)

subsection \<open>Sign\<close>

lemma BuildSign_nan:
  "IsFloatingPointType (TypeOfXlaOp input) \<Longrightarrow> eval env input = Some (VFloat NaN) \<Longrightarrow>
   eval env (BuildSign dev input) = Some (VFloat (Fin 0))"
  by (simp add: BuildSign_def ConvertToNumeric1_def ConvertToNumeric_def Let_def floating_kind
      eval_Zero_float feq_def TypeOfXlaOp_def[symmetric])

lemma BuildSign_float:
  "IsFloatingPointType (TypeOfXlaOp input) \<Longrightarrow> eval env input = Some (VFloat x) \<Longrightarrow>
   x \<noteq> NaN \<Longrightarrow> eval env (BuildSign dev input) = Some (VFloat (Fin (fsgn x)))"
  by (cases x)
     (simp_all add: BuildSign_def ConvertToNumeric1_def ConvertToNumeric_def Let_def
      floating_kind eval_Zero_float feq_def TypeOfXlaOp_def[symmetric])

lemma BuildSign_signed:
  "IsSignedIntegralType (TypeOfXlaOp input) \<Longrightarrow> eval env input = Some (VInt n) \<Longrightarrow>
   eval env (BuildSign dev input) = Some (VInt (sgn n))"
  by (simp add: BuildSign_def ConvertToNumeric1_def ConvertToNumeric_def Let_def signed_kind
      eval_Zero_int TypeOfXlaOp_def[symmetric])

lemma BuildSign_unsigned:
  "IsUnsignedIntegralType (TypeOfXlaOp input) \<Longrightarrow> eval env input = Some (VInt n) \<Longrightarrow>
   eval env (BuildSign dev input) = Some (VInt (if 0 < n then 1 else 0))"
  by (simp add: BuildSign_def ConvertToNumeric1_def ConvertToNumeric_def Let_def unsigned_kind
      eval_Zero_int TypeOfXlaOp_def[symmetric])

lemma primitive_sign_eval:
  "eval env input = Some (VInt n) \<Longrightarrow> eval env (Unary kSign input) = Some (VInt (sgn n))"
  "eval env input = Some (VFloat x) \<Longrightarrow> x \<noteq> NaN \<Longrightarrow>
     eval env (Unary kSign input) = Some (VFloat (Fin (fsgn x)))"
  by (simp, cases x) simp_all

lemma positive_cast_eval:
  "IsUnsignedIntegralType (TypeOfXlaOp input) \<Longrightarrow> eval env input = Some (VInt n) \<Longrightarrow>
   eval env (ConvertElementType (Compare kGt input (Zero (TypeOfXlaOp input)) [])
               (TypeOfXlaOp input)) = Some (VInt (if 0 < n then 1 else 0))"
  by (simp add: unsigned_kind eval_Zero_int)

subsection \<open>Logit\<close>




subsection \<open>Operands of one kind\<close>

lemma BuildSoftshrink_kinds:
  "same_kind_operands input \<Longrightarrow> same_kind_operands lambda \<Longrightarrow>
   same_kind_operands (BuildSoftshrink input lambda)"
  by (simp add: BuildSoftshrink_def Let_def TypeOfXlaOp_def[symmetric])

lemma BuildLeakyReluBackward_kinds:
  "same_kind_operands input \<Longrightarrow> same_kind_operands slope \<Longrightarrow> same_kind_operands grad \<Longrightarrow>
   same_kind_operands (BuildLeakyReluBackward grad input slope) \<longleftrightarrow>
     TypeOfXlaOp grad = TypeOfXlaOp input"
  by (auto simp add: BuildLeakyReluBackward_def Let_def TypeOfXlaOp_def[symmetric])

lemma BuildLeakyReluBackward_graph:
  "BuildLeakyReluBackward grad input slope =
     Select (Compare kGt input (Zero (TypeOfXlaOp input)) []) grad
       (Binary kMul (MaybeConvertTo slope (TypeOfXlaOp input)) grad [])"
  by (simp add: BuildLeakyReluBackward_def Let_def TypeOfXlaOp_def)

lemma BuildElu_kinds:
  "same_kind_operands input \<Longrightarrow> same_kind_operands alpha \<Longrightarrow> same_kind_operands scale \<Longrightarrow>
   same_kind_operands input_scale \<Longrightarrow>
   same_kind_operands (BuildElu input alpha scale input_scale)"
  by (simp add: BuildElu_def Let_def TypeOfXlaOp_def[symmetric])

lemma BuildHardshrink_kinds:
  assumes "Promote_gives_one_kind h" and "same_kind_operands input"
    and "same_kind_operands lambda"
  shows "\<not> isl (BuildHardshrink h input lambda)"
    and "same_kind_operands (projr (BuildHardshrink h input lambda))"
  using assms
  by (simp_all add: BuildHardshrink_def Let_def BuildComparisonOp_kinds
      TypeOfXlaOp_def[symmetric])

lemma BuildShrinkBackward_kinds:
  assumes "Promote_gives_one_kind h" and "same_kind_operands input"
    and "same_kind_operands lambda" and "same_kind_operands grad"
  shows "\<not> isl (BuildShrinkBackward h grad input lambda)"
    and "same_kind_operands (projr (BuildShrinkBackward h grad input lambda)) \<longleftrightarrow>
           TypeOfXlaOp grad = TypeOfXlaOp input"
  using assms
  by (auto simp add: BuildShrinkBackward_def Let_def BuildComparisonOp_kinds
      TypeOfXlaOp_def[symmetric])

section \<open>Properties of the conversion layer\<close>

text \<open>
  C7: for every value and every kind \<open>k\<close>, \<open>ConvertTo v k k\<close> is \<open>v\<close> itself, so no
  instruction is emitted and the graph is unchanged; for two distinct kinds the result is
  one element-type-conversion instruction applied to \<open>v\<close>, one node more than \<open>v\<close>.
\<close>

theorem ConvertTo_identity_or_one_conversion:
  "ConvertTo v k k = v \<and>
   instruction_count (ConvertTo v k k) = instruction_count v \<and>
   (from \<noteq> to \<longrightarrow>
      ConvertTo v from to = ConvertElementType v to \<and>
      instruction_count (ConvertTo v from to) = Suc (instruction_count v))"
  by (simp add: ConvertTo_def)

theorem ConvertTo_identity_or_one_conversion_witness:
  "ConvertTo (Parameter 0 \<lparr>element_type = F32, dimensions = [2]\<rparr>) F32 F32 =
     Parameter 0 \<lparr>element_type = F32, dimensions = [2]\<rparr> \<and>
   S32 \<noteq> F32 \<and>
   ConvertTo (Parameter 0 \<lparr>element_type = S32, dimensions = [2]\<rparr>) S32 F32 =
     ConvertElementType (Parameter 0 \<lparr>element_type = S32, dimensions = [2]\<rparr>) F32 \<and>
   instruction_count (ConvertTo (Parameter 0 \<lparr>element_type = S32, dimensions = [2]\<rparr>) S32 F32) = 2"
  using ConvertTo_identity_or_one_conversion
    [of "Parameter 0 \<lparr>element_type = F32, dimensions = [2]\<rparr>" F32 S32 F32]
    ConvertTo_identity_or_one_conversion
    [of "Parameter 0 \<lparr>element_type = S32, dimensions = [2]\<rparr>" S32 S32 F32]
  by simp

text \<open>
  C1, as the code has it: in \<open>ConvertData op type narrow_type\<close> the first kind is the
  logical kind and the second the raw kind (\<open>ConvertToRaw\<close> passes \<open>from, raw_from\<close> and
  \<open>to, raw_to\<close>). When both kinds are integral, the fatal check enforces that the
  logical width is at least the raw width: the call aborts exactly when the logical
  kind is narrower than the raw kind, and then \<open>ConvertToRaw\<close> aborts as well, in its
  first stage and in its last stage; when the raw kind is the narrower one, or both
  have one width, the call returns a value.
\<close>

theorem ConvertData_aborts_iff_logical_narrower:
  assumes "IsIntegralType logical" and "IsIntegralType raw"
  shows "(isl (ConvertData op logical raw) \<longleftrightarrow>
            ByteSizeOfPrimitiveType logical < ByteSizeOfPrimitiveType raw) \<and>
         (ByteSizeOfPrimitiveType logical < ByteSizeOfPrimitiveType raw \<longrightarrow>
            isl (ConvertToRaw op logical raw to raw_to) \<and>
            isl (ConvertToRaw op from raw_from logical raw))"
  using assms by (simp add: ConvertData_def Let_def ConvertToRaw_def split: sum.splits)

theorem ConvertData_aborts_iff_logical_narrower_witness:
  "IsIntegralType S8 \<and> IsIntegralType S32 \<and>
   ByteSizeOfPrimitiveType S8 < ByteSizeOfPrimitiveType S32 \<and>
   isl (ConvertData (Parameter 0 \<lparr>element_type = S8, dimensions = [2]\<rparr>) S8 S32) \<and>
   isl (ConvertToRaw (Parameter 0 \<lparr>element_type = S8, dimensions = [2]\<rparr>) S8 S32 F32 F32) \<and>
   isl (ConvertToRaw (Parameter 0 \<lparr>element_type = S8, dimensions = [2]\<rparr>) F32 F32 S8 S32)"
proof -
  have h1: "IsIntegralType S8" and h2: "IsIntegralType S32"
    by (simp_all add: IsIntegralType_def)
  show ?thesis
    using h1 h2
      ConvertData_aborts_iff_logical_narrower
        [OF h1 h2, of "Parameter 0 \<lparr>element_type = S8, dimensions = [2]\<rparr>" F32 F32 F32 F32]
    by simp
qed

text \<open>
  C1, as the claim states it, fails: with the logical kind \<open>S64\<close> and the raw kind
  \<open>S32\<close> the raw width is narrower than the logical width, and the call returns a value.
\<close>

theorem ConvertData_raw_narrower_returns:
  "IsIntegralType S64 \<and> IsIntegralType S32 \<and>
   ByteSizeOfPrimitiveType S32 < ByteSizeOfPrimitiveType S64 \<and>
   \<not> isl (ConvertData (Parameter 0 \<lparr>element_type = S64, dimensions = [2]\<rparr>) S64 S32)"
  by (simp add: ConvertData_def IsIntegralType_def Let_def)

text \<open>
  C4, as the code has it: for two integral kinds where \<open>narrow_type\<close> is not wider
  than \<open>type\<close>, \<open>ConvertData\<close> returns a value. Its element is the input element
  when \<open>type\<close> is signed or both widths are equal, and the input element modulo
  \<open>2 ^ bit_width narrow_type\<close> otherwise; so an element that is representable in the
  narrow width comes back unchanged, and masking the result again with the same kinds
  gives it back once more. For a strictly narrower \<open>narrow_type\<close> the mask is the
  all-ones mask of the narrow width, which the shift to the top of the wide kind and
  the arithmetic shift back turn into \<open>-1\<close> when \<open>type\<close> is signed; and the call with
  the two kinds swapped aborts.
\<close>

theorem ConvertData_mask_keeps_narrow_values:
  assumes "IsIntegralType type" and "IsIntegralType narrow_type"
    and "ByteSizeOfPrimitiveType narrow_type \<le> ByteSizeOfPrimitiveType type"
    and "eval env op = Some (VInt v)"
  shows "\<not> isl (ConvertData op type narrow_type) \<and>
    eval env (projr (ConvertData op type narrow_type)) =
      Some (VInt (if IsSignedIntegralType type \<or>
                     ByteSizeOfPrimitiveType narrow_type = ByteSizeOfPrimitiveType type
                  then v else v mod 2 ^ bit_width narrow_type)) \<and>
    (fits_narrow type narrow_type v \<longrightarrow>
       eval env (projr (ConvertData op type narrow_type)) = Some (VInt v) \<and>
       \<not> isl (ConvertData (projr (ConvertData op type narrow_type)) type narrow_type) \<and>
       eval env (projr (ConvertData (projr (ConvertData op type narrow_type)) type narrow_type)) =
         Some (VInt v)) \<and>
    (ByteSizeOfPrimitiveType narrow_type < ByteSizeOfPrimitiveType type \<longrightarrow>
       ConvertData op type narrow_type =
         Inr (op_and op (CreateRawMask op type (ByteSizeOfPrimitiveType type)
                           (ByteSizeOfPrimitiveType narrow_type))) \<and>
       eval env (CreateRawMask op type (ByteSizeOfPrimitiveType type)
                   (ByteSizeOfPrimitiveType narrow_type)) =
         Some (VInt (if IsSignedIntegralType type then - 1 else 2 ^ bit_width narrow_type - 1)) \<and>
       isl (ConvertData (projr (ConvertData op type narrow_type)) narrow_type type))"
proof -
  let ?r = "projr (ConvertData op type narrow_type)"
  have r: "\<not> isl (ConvertData op type narrow_type)"
    and er: "eval env ?r =
      Some (VInt (if IsSignedIntegralType type \<or>
                     ByteSizeOfPrimitiveType narrow_type = ByteSizeOfPrimitiveType type
                  then v else v mod 2 ^ bit_width narrow_type))"
    using ConvertData_eval[OF assms] by simp_all
  have again: "\<not> isl (ConvertData ?r type narrow_type) \<and>
      eval env (projr (ConvertData ?r type narrow_type)) = Some (VInt v)"
    if f: "fits_narrow type narrow_type v"
  proof -
    have ev: "eval env ?r = Some (VInt v)"
      using er fits_narrow_unchanged[OF f] by simp
    show ?thesis
      using ConvertData_eval[OF assms(1-3) ev] fits_narrow_unchanged[OF f] by simp
  qed
  have narrow: "ConvertData op type narrow_type =
         Inr (op_and op (CreateRawMask op type (ByteSizeOfPrimitiveType type)
                           (ByteSizeOfPrimitiveType narrow_type))) \<and>
       isl (ConvertData ?r narrow_type type)"
    if "ByteSizeOfPrimitiveType narrow_type < ByteSizeOfPrimitiveType type"
    using that assms(1,2) by (simp add: ConvertData_def Let_def)
  have unchanged: "eval env ?r = Some (VInt v)" if f: "fits_narrow type narrow_type v"
    using er fits_narrow_unchanged[OF f] by simp
  show ?thesis
  proof (intro conjI impI)
    show "\<not> isl (ConvertData op type narrow_type)" by (rule r)
    show "eval env ?r =
      Some (VInt (if IsSignedIntegralType type \<or>
                     ByteSizeOfPrimitiveType narrow_type = ByteSizeOfPrimitiveType type
                  then v else v mod 2 ^ bit_width narrow_type))" by (rule er)
    show "eval env ?r = Some (VInt v)" if "fits_narrow type narrow_type v"
      using that by (rule unchanged)
    show "\<not> isl (ConvertData ?r type narrow_type)" if "fits_narrow type narrow_type v"
      using again[OF that] by simp
    show "eval env (projr (ConvertData ?r type narrow_type)) = Some (VInt v)"
      if "fits_narrow type narrow_type v"
      using again[OF that] by simp
    show "ConvertData op type narrow_type =
         Inr (op_and op (CreateRawMask op type (ByteSizeOfPrimitiveType type)
                           (ByteSizeOfPrimitiveType narrow_type)))"
      if "ByteSizeOfPrimitiveType narrow_type < ByteSizeOfPrimitiveType type"
      using narrow[OF that] by blast
    show "eval env (CreateRawMask op type (ByteSizeOfPrimitiveType type)
                   (ByteSizeOfPrimitiveType narrow_type)) =
         Some (VInt (if IsSignedIntegralType type then - 1 else 2 ^ bit_width narrow_type - 1))"
      if "ByteSizeOfPrimitiveType narrow_type < ByteSizeOfPrimitiveType type"
      using that by (rule CreateRawMask_eval[OF assms(1,2)])
    show "isl (ConvertData ?r narrow_type type)"
      if "ByteSizeOfPrimitiveType narrow_type < ByteSizeOfPrimitiveType type"
      using narrow[OF that] by blast
  qed
qed

theorem ConvertData_mask_keeps_narrow_values_witness:
  "IsIntegralType U32 \<and> IsIntegralType U8 \<and>
   ByteSizeOfPrimitiveType U8 \<le> ByteSizeOfPrimitiveType U32 \<and>
   eval \<lparr>params = [VInt 200], draw = 0\<rparr>
     (Parameter 0 \<lparr>element_type = U32, dimensions = [4]\<rparr>) = Some (VInt 200) \<and>
   fits_narrow U32 U8 200 \<and>
   eval \<lparr>params = [VInt 200], draw = 0\<rparr>
     (projr (ConvertData (Parameter 0 \<lparr>element_type = U32, dimensions = [4]\<rparr>) U32 U8)) =
     Some (VInt 200) \<and>
   eval \<lparr>params = [VInt 200], draw = 0\<rparr>
     (CreateRawMask (Parameter 0 \<lparr>element_type = U32, dimensions = [4]\<rparr>) U32
        (ByteSizeOfPrimitiveType U32) (ByteSizeOfPrimitiveType U8)) = Some (VInt 255) \<and>
   isl (ConvertData
          (projr (ConvertData (Parameter 0 \<lparr>element_type = U32, dimensions = [4]\<rparr>) U32 U8))
          U8 U32)"
proof -
  have h1: "IsIntegralType U32" and h2: "IsIntegralType U8"
    by (simp_all add: IsIntegralType_def)
  have h3: "ByteSizeOfPrimitiveType U8 \<le> ByteSizeOfPrimitiveType U32" by simp
  have h4: "eval \<lparr>params = [VInt 200], draw = 0\<rparr>
     (Parameter 0 \<lparr>element_type = U32, dimensions = [4]\<rparr>) = Some (VInt 200)"
    by (simp add: IsIntegralType_def wrap_def bit_width_def CHAR_BIT_def)
  have h5: "fits_narrow U32 U8 200"
    by (simp add: fits_narrow_def bit_width_def CHAR_BIT_def)
  have w: "bit_width U8 = 8" by (simp add: bit_width_def CHAR_BIT_def)
  have lt: "ByteSizeOfPrimitiveType U8 < ByteSizeOfPrimitiveType U32" by simp
  note T = ConvertData_mask_keeps_narrow_values [OF h1 h2 h3 h4]
  have c1: "eval \<lparr>params = [VInt 200], draw = 0\<rparr>
     (projr (ConvertData (Parameter 0 \<lparr>element_type = U32, dimensions = [4]\<rparr>) U32 U8)) =
     Some (VInt 200)"
    using T h5 by blast
  have c2: "eval \<lparr>params = [VInt 200], draw = 0\<rparr>
     (CreateRawMask (Parameter 0 \<lparr>element_type = U32, dimensions = [4]\<rparr>) U32
        (ByteSizeOfPrimitiveType U32) (ByteSizeOfPrimitiveType U8)) =
     Some (VInt (if IsSignedIntegralType U32 then - 1 else 2 ^ bit_width U8 - 1))"
    using T lt by blast
  have c3: "isl (ConvertData
          (projr (ConvertData (Parameter 0 \<lparr>element_type = U32, dimensions = [4]\<rparr>) U32 U8))
          U8 U32)"
    using T lt by blast
  show ?thesis
    using h1 h2 h4 h5 c1 c2 c3 by (simp add: w)
qed

text \<open>
  C4, as the claim states it, fails: masking and then masking again with the two kinds
  swapped does not return a value when the widths differ. With the logical kind \<open>U8\<close>
  and the wider raw kind \<open>U32\<close> the first call aborts; in the other order the first
  call returns and the swapped call aborts.
\<close>

theorem ConvertData_swapped_kinds_abort:
  "IsIntegralType U8 \<and> IsIntegralType U32 \<and>
   ByteSizeOfPrimitiveType U8 \<le> ByteSizeOfPrimitiveType U32 \<and>
   isl (ConvertData (Parameter 0 \<lparr>element_type = U8, dimensions = [4]\<rparr>) U8 U32) \<and>
   \<not> isl (ConvertData (Parameter 0 \<lparr>element_type = U32, dimensions = [4]\<rparr>) U32 U8) \<and>
   isl (ConvertData
          (projr (ConvertData (Parameter 0 \<lparr>element_type = U32, dimensions = [4]\<rparr>) U32 U8))
          U8 U32)"
  by (simp add: ConvertData_def Let_def IsIntegralType_def)

section \<open>Properties of the elementwise operators\<close>

text \<open>
  C6: \<open>BuildComparisonOp\<close> promotes its two operands, and for each of the six
  comparison tags returns the matching comparison instruction on the promoted operands,
  with the broadcast dimensions of the promoted operands; for every other tag it aborts
  and returns no value.
\<close>

theorem BuildComparisonOp_dispatch:
  "BuildComparisonOp h aten_ne lhs rhs =
     Inr (Compare kNe (fst (Promote h lhs rhs)) (snd (Promote h lhs rhs))
            (getBroadcastDimensions h (fst (Promote h lhs rhs)) (snd (Promote h lhs rhs)))) \<and>
   BuildComparisonOp h aten_eq lhs rhs =
     Inr (Compare kEq (fst (Promote h lhs rhs)) (snd (Promote h lhs rhs))
            (getBroadcastDimensions h (fst (Promote h lhs rhs)) (snd (Promote h lhs rhs)))) \<and>
   BuildComparisonOp h aten_ge lhs rhs =
     Inr (Compare kGe (fst (Promote h lhs rhs)) (snd (Promote h lhs rhs))
            (getBroadcastDimensions h (fst (Promote h lhs rhs)) (snd (Promote h lhs rhs)))) \<and>
   BuildComparisonOp h aten_le lhs rhs =
     Inr (Compare kLe (fst (Promote h lhs rhs)) (snd (Promote h lhs rhs))
            (getBroadcastDimensions h (fst (Promote h lhs rhs)) (snd (Promote h lhs rhs)))) \<and>
   BuildComparisonOp h aten_gt lhs rhs =
     Inr (Compare kGt (fst (Promote h lhs rhs)) (snd (Promote h lhs rhs))
            (getBroadcastDimensions h (fst (Promote h lhs rhs)) (snd (Promote h lhs rhs)))) \<and>
   BuildComparisonOp h aten_lt lhs rhs =
     Inr (Compare kLt (fst (Promote h lhs rhs)) (snd (Promote h lhs rhs))
            (getBroadcastDimensions h (fst (Promote h lhs rhs)) (snd (Promote h lhs rhs)))) \<and>
   (kind \<notin> {aten_ne, aten_eq, aten_ge, aten_le, aten_gt, aten_lt} \<longrightarrow>
      isl (BuildComparisonOp h kind lhs rhs))"
  by (cases kind) (simp_all add: BuildComparisonOp_def Let_def)

theorem BuildComparisonOp_dispatch_witness:
  "aten_other ''aten::add'' \<notin> {aten_ne, aten_eq, aten_ge, aten_le, aten_gt, aten_lt} \<and>
   isl (BuildComparisonOp promote_to_first (aten_other ''aten::add'')
          (Parameter 0 \<lparr>element_type = F32, dimensions = [2]\<rparr>)
          (Parameter 1 \<lparr>element_type = F32, dimensions = [2]\<rparr>)) \<and>
   BuildComparisonOp promote_to_first aten_lt
     (Parameter 0 \<lparr>element_type = F32, dimensions = [2]\<rparr>)
     (Parameter 1 \<lparr>element_type = F32, dimensions = [2]\<rparr>) =
     Inr (Compare kLt (Parameter 0 \<lparr>element_type = F32, dimensions = [2]\<rparr>)
            (Parameter 1 \<lparr>element_type = F32, dimensions = [2]\<rparr>) [])"
  using BuildComparisonOp_dispatch
    [of promote_to_first "Parameter 0 \<lparr>element_type = F32, dimensions = [2]\<rparr>"
        "Parameter 1 \<lparr>element_type = F32, dimensions = [2]\<rparr>" "aten_other ''aten::add''"]
  by (simp add: promote_to_first_def MaybeConvertTo_def)

text \<open>
  C10: for an input of an unsigned integral kind \<open>BuildAbs\<close> returns the input itself,
  so no instruction is emitted; for every other kind it returns the absolute-value
  instruction applied to the input.
\<close>

theorem BuildAbs_unsigned_identity:
  "(IsUnsignedIntegralType (TypeOfXlaOp input) \<longrightarrow>
      BuildAbs input = input \<and> instruction_count (BuildAbs input) = instruction_count input) \<and>
   (\<not> IsUnsignedIntegralType (TypeOfXlaOp input) \<longrightarrow> BuildAbs input = Unary kAbs input)"
  by (simp add: BuildAbs_def TypeOfXlaOp_def Let_def)

theorem BuildAbs_unsigned_identity_witness:
  "IsUnsignedIntegralType (TypeOfXlaOp (Parameter 0 \<lparr>element_type = U16, dimensions = [3]\<rparr>)) \<and>
   BuildAbs (Parameter 0 \<lparr>element_type = U16, dimensions = [3]\<rparr>) =
     Parameter 0 \<lparr>element_type = U16, dimensions = [3]\<rparr> \<and>
   \<not> IsUnsignedIntegralType (TypeOfXlaOp (Parameter 0 \<lparr>element_type = S16, dimensions = [3]\<rparr>)) \<and>
   BuildAbs (Parameter 0 \<lparr>element_type = S16, dimensions = [3]\<rparr>) =
     Unary kAbs (Parameter 0 \<lparr>element_type = S16, dimensions = [3]\<rparr>)"
  using BuildAbs_unsigned_identity [of "Parameter 0 \<lparr>element_type = U16, dimensions = [3]\<rparr>"]
    BuildAbs_unsigned_identity [of "Parameter 0 \<lparr>element_type = S16, dimensions = [3]\<rparr>"]
  by simp

text \<open>
  C3, as the code has it: for numbers \<open>x\<close> (input) and \<open>g\<close> (grad_output) the
  hard-swish backward graph computes \<open>g\<close> where \<open>x \<ge> 3\<close>, otherwise
  \<open>g * (0.5 + x / 3)\<close> where \<open>-3 \<le> x \<le> 3\<close>, otherwise \<open>0\<close>. The membership test
  of the middle branch is \<open>Between\<close>, which is built from the two non-strict comparisons
  \<open>kGe\<close> (against the lower bound) and \<open>kLe\<close> (against the upper bound), so it is
  not strict at either end.
\<close>

theorem BuildHardSwishBackward_closed_interval:
  assumes "Promote_preserves_elements h" and "IsFloatingPointType (TypeOfXlaOp input)"
    and "eval env input = Some (VFloat (Fin x))"
    and "eval env grad_output = Some (VFloat (Fin g))"
  shows "\<not> isl (BuildHardSwishBackward h grad_output input) \<and>
    eval env (projr (BuildHardSwishBackward h grad_output input)) =
      Some (VFloat (Fin (if 3 \<le> x then g
                         else if - 3 \<le> x \<and> x \<le> 3 then g * (1 / 2 + x / 3) else 0))) \<and>
    Between h input (ScalarDouble (- 3)) (ScalarDouble 3) =
      Inr (Binary kAnd
        (Compare kGe
           (fst (Promote h input (ScalarValue_at (ScalarDouble (- 3)) (TypeOfXlaOp input))))
           (snd (Promote h input (ScalarValue_at (ScalarDouble (- 3)) (TypeOfXlaOp input))))
           (getBroadcastDimensions h
              (fst (Promote h input (ScalarValue_at (ScalarDouble (- 3)) (TypeOfXlaOp input))))
              (snd (Promote h input (ScalarValue_at (ScalarDouble (- 3)) (TypeOfXlaOp input))))))
        (Compare kLe
           (fst (Promote h input (ScalarValue_at (ScalarDouble 3) (TypeOfXlaOp input))))
           (snd (Promote h input (ScalarValue_at (ScalarDouble 3) (TypeOfXlaOp input))))
           (getBroadcastDimensions h
              (fst (Promote h input (ScalarValue_at (ScalarDouble 3) (TypeOfXlaOp input))))
              (snd (Promote h input (ScalarValue_at (ScalarDouble 3) (TypeOfXlaOp input))))))
        [])"
proof -
  obtain b where b: "Between h input (ScalarDouble (- 3)) (ScalarDouble 3) = Inr b"
    using Between_eval(1)[OF assms(1-3)] by (metis sum.collapse(2))
  have eb: "eval env b = Some (VPred (- 3 \<le> x \<and> x \<le> 3))"
    using Between_eval(2)[OF assms(1-3), of "- 3" 3] b by simp
  have result: "\<not> isl (BuildHardSwishBackward h grad_output input) \<and>
    eval env (projr (BuildHardSwishBackward h grad_output input)) =
      Some (VFloat (Fin (if 3 \<le> x then g
                         else if - 3 \<le> x \<and> x \<le> 3 then g * (1 / 2 + x / 3) else 0)))"
    using assms(2-4) eb
    by (simp add: BuildHardSwishBackward_def Let_def b TypeOfXlaOp_def[symmetric]
        eval_RealLit_float eval_Zero_float fle_def feq_def)
  show ?thesis
    using result Between_structure[of h input "ScalarDouble (- 3)" "ScalarDouble 3"] by blast
qed

theorem BuildHardSwishBackward_closed_interval_witness:
  "Promote_preserves_elements promote_to_first \<and>
   IsFloatingPointType (TypeOfXlaOp (Parameter 1 \<lparr>element_type = F32, dimensions = [1]\<rparr>)) \<and>
   eval \<lparr>params = [VFloat (Fin 1), VFloat (Fin (- 3))], draw = 0\<rparr>
     (Parameter 1 \<lparr>element_type = F32, dimensions = [1]\<rparr>) = Some (VFloat (Fin (- 3))) \<and>
   eval \<lparr>params = [VFloat (Fin 1), VFloat (Fin (- 3))], draw = 0\<rparr>
     (Parameter 0 \<lparr>element_type = F32, dimensions = [1]\<rparr>) = Some (VFloat (Fin 1)) \<and>
   \<not> isl (BuildHardSwishBackward promote_to_first
            (Parameter 0 \<lparr>element_type = F32, dimensions = [1]\<rparr>)
            (Parameter 1 \<lparr>element_type = F32, dimensions = [1]\<rparr>)) \<and>
   eval \<lparr>params = [VFloat (Fin 1), VFloat (Fin (- 3))], draw = 0\<rparr>
     (projr (BuildHardSwishBackward promote_to_first
        (Parameter 0 \<lparr>element_type = F32, dimensions = [1]\<rparr>)
        (Parameter 1 \<lparr>element_type = F32, dimensions = [1]\<rparr>))) =
     Some (VFloat (Fin (- (1 / 2))))"
proof -
  have h1: "Promote_preserves_elements promote_to_first"
    by (rule promote_to_first_preserves)
  have h2: "IsFloatingPointType
      (TypeOfXlaOp (Parameter 1 \<lparr>element_type = F32, dimensions = [1]\<rparr>))"
    by simp
  have h3: "eval \<lparr>params = [VFloat (Fin 1), VFloat (Fin (- 3))], draw = 0\<rparr>
     (Parameter 1 \<lparr>element_type = F32, dimensions = [1]\<rparr>) = Some (VFloat (Fin (- 3)))"
    by simp
  have h4: "eval \<lparr>params = [VFloat (Fin 1), VFloat (Fin (- 3))], draw = 0\<rparr>
     (Parameter 0 \<lparr>element_type = F32, dimensions = [1]\<rparr>) = Some (VFloat (Fin 1))"
    by simp
  note T = BuildHardSwishBackward_closed_interval [OF h1 h2 h3 h4]
  have c1: "\<not> isl (BuildHardSwishBackward promote_to_first
            (Parameter 0 \<lparr>element_type = F32, dimensions = [1]\<rparr>)
            (Parameter 1 \<lparr>element_type = F32, dimensions = [1]\<rparr>))"
    using T by blast
  have c2: "eval \<lparr>params = [VFloat (Fin 1), VFloat (Fin (- 3))], draw = 0\<rparr>
     (projr (BuildHardSwishBackward promote_to_first
        (Parameter 0 \<lparr>element_type = F32, dimensions = [1]\<rparr>)
        (Parameter 1 \<lparr>element_type = F32, dimensions = [1]\<rparr>))) =
     Some (VFloat (Fin (if (3::real) \<le> - 3 then 1
                        else if (- 3 :: real) \<le> - 3 \<and> (- 3 :: real) \<le> 3
                             then 1 * (1 / 2 + - 3 / 3) else 0)))"
    using T by blast
  show ?thesis
    using h1 h2 h3 h4 c1 c2 by simp
qed

text \<open>
  C3, as the claim states it, fails: at the boundary \<open>input = -3\<close>, which a strict
  membership test excludes, the graph yields \<open>grad_output * (0.5 + input / 3)\<close>
  (\<open>-0.5\<close> for \<open>grad_output = 1\<close>) and not the \<open>0\<close> of the strict formula.
\<close>

theorem BuildHardSwishBackward_not_strict_at_boundary:
  "eval \<lparr>params = [VFloat (Fin 1), VFloat (Fin (- 3))], draw = 0\<rparr>
     (projr (BuildHardSwishBackward promote_to_first
        (Parameter 0 \<lparr>element_type = F32, dimensions = [1]\<rparr>)
        (Parameter 1 \<lparr>element_type = F32, dimensions = [1]\<rparr>)))
   \<noteq> Some (VFloat (Fin (hard_swish_backward_strict 1 (- 3))))"
  by (simp add: BuildHardSwishBackward_def Between_def BuildComparisonOp_def Let_def
      promote_to_first_def MaybeConvertTo_def ScalarValue_def Zero_def const_val_def
      IsIntegralType_def TypeOfXlaOp_def fle_def feq_def hard_swish_backward_strict_def)

text \<open>
  C2, as the code has it: in training mode \<open>BuildRrelu\<close> returns \<open>[output, noise]\<close>
  with \<open>noise = select (input > 0) 1 slope\<close> and \<open>output = input * noise\<close>, where
  \<open>slope\<close> is the uniform draw between \<open>lower\<close> and \<open>upper\<close> from the seed. For a
  number \<open>x\<close> the noise element is \<open>1\<close> where \<open>x > 0\<close> and lies within
  \<open>[lower, upper]\<close> elsewhere (for \<open>lower \<le> upper\<close>), and the output element is
  \<open>x\<close> times the noise element. In evaluation mode the noise is the broadcast zero, every
  element of it is \<open>0\<close>, and the output is the leaky ReLU with the fixed slope
  \<open>(lower + upper) / 2\<close>: \<open>x\<close> where \<open>x > 0\<close> and slope times \<open>x\<close> elsewhere.
\<close>

theorem BuildRrelu_noise_and_output:
  assumes "IsFloatingPointType (TypeOfXlaOp input)"
    and "eval env input = Some (VFloat (Fin x))"
  shows "(\<exists>slope.
            BuildRrelu input lower upper True seed =
              [Binary kMul input
                 (Select (Compare kGt input (Zero (TypeOfXlaOp input)) [])
                    (One (TypeOfXlaOp input)) slope) [],
               Select (Compare kGt input (Zero (TypeOfXlaOp input)) [])
                 (One (TypeOfXlaOp input)) slope] \<and>
            slope = RngUniform seed \<lparr>element_type = TypeOfXlaOp input, dimensions = []\<rparr>
                      (ScalarValue_at lower (TypeOfXlaOp input))
                      (ScalarValue_at upper (TypeOfXlaOp input))) \<and>
         (\<exists>n. eval env (BuildRrelu input lower upper True seed ! 1) = Some (VFloat (Fin n)) \<and>
              eval env (BuildRrelu input lower upper True seed ! 0) = Some (VFloat (Fin (x * n))) \<and>
              (0 < x \<longrightarrow> n = 1) \<and>
              (\<not> 0 < x \<and> toDouble lower \<le> toDouble upper \<longrightarrow>
                 toDouble lower \<le> n \<and> n \<le> toDouble upper)) \<and>
         BuildRrelu input lower upper False seed =
           [BuildLeakyRelu input
              (ScalarValue (RealLit ((toDouble lower + toDouble upper) / 2)) (TypeOfXlaOp input)),
            Broadcast (Zero (TypeOfXlaOp input)) (dimensions (ShapeOfXlaOp input))] \<and>
         eval env (BuildRrelu input lower upper False seed ! 1) = Some (VFloat (Fin 0)) \<and>
         eval env (BuildRrelu input lower upper False seed ! 0) =
           Some (VFloat (Fin (if 0 < x then x else (toDouble lower + toDouble upper) / 2 * x)))"
proof -
  let ?n = "if 0 < x then 1
            else toDouble lower + max 0 (min 1 (draw env)) * (toDouble upper - toDouble lower)"
  have graph: "\<exists>slope.
            BuildRrelu input lower upper True seed =
              [Binary kMul input
                 (Select (Compare kGt input (Zero (TypeOfXlaOp input)) [])
                    (One (TypeOfXlaOp input)) slope) [],
               Select (Compare kGt input (Zero (TypeOfXlaOp input)) [])
                 (One (TypeOfXlaOp input)) slope] \<and>
            slope = RngUniform seed \<lparr>element_type = TypeOfXlaOp input, dimensions = []\<rparr>
                      (ScalarValue_at lower (TypeOfXlaOp input))
                      (ScalarValue_at upper (TypeOfXlaOp input))"
    using BuildRrelu_training_structure[of input lower upper seed] by blast
  have bounds: "toDouble lower \<le> ?n \<and> ?n \<le> toDouble upper"
    if "\<not> 0 < x" and "toDouble lower \<le> toDouble upper"
    using that uniform_bounds[of "toDouble lower" "toDouble upper" "draw env"] by simp
  have training: "\<exists>n. eval env (BuildRrelu input lower upper True seed ! 1) = Some (VFloat (Fin n)) \<and>
      eval env (BuildRrelu input lower upper True seed ! 0) = Some (VFloat (Fin (x * n))) \<and>
      (0 < x \<longrightarrow> n = 1) \<and>
      (\<not> 0 < x \<and> toDouble lower \<le> toDouble upper \<longrightarrow>
         toDouble lower \<le> n \<and> n \<le> toDouble upper)"
  proof (intro exI[of _ ?n] conjI impI)
    show "eval env (BuildRrelu input lower upper True seed ! 1) = Some (VFloat (Fin ?n))"
      by (rule BuildRrelu_training_noise[OF assms])
    show "eval env (BuildRrelu input lower upper True seed ! 0) = Some (VFloat (Fin (x * ?n)))"
      by (rule BuildRrelu_training_output[OF assms])
    show "?n = 1" if "0 < x" using that by simp
    show "toDouble lower \<le> ?n" if "\<not> 0 < x \<and> toDouble lower \<le> toDouble upper"
      using bounds that by blast
    show "?n \<le> toDouble upper" if "\<not> 0 < x \<and> toDouble lower \<le> toDouble upper"
      using bounds that by blast
  qed
  show ?thesis
    using graph training BuildRrelu_evaluation_mode[OF assms, of lower upper seed]
    by blast
qed

theorem BuildRrelu_noise_and_output_witness:
  "IsFloatingPointType (TypeOfXlaOp (Parameter 0 \<lparr>element_type = F32, dimensions = [1]\<rparr>)) \<and>
   eval \<lparr>params = [VFloat (Fin (- 2))], draw = 1 / 2\<rparr>
     (Parameter 0 \<lparr>element_type = F32, dimensions = [1]\<rparr>) = Some (VFloat (Fin (- 2))) \<and>
   \<not> 0 < (- 2 :: real) \<and>
   toDouble (ScalarDouble (1 / 8)) \<le> toDouble (ScalarDouble (1 / 3)) \<and>
   (\<exists>n. eval \<lparr>params = [VFloat (Fin (- 2))], draw = 1 / 2\<rparr>
           (BuildRrelu (Parameter 0 \<lparr>element_type = F32, dimensions = [1]\<rparr>)
              (ScalarDouble (1 / 8)) (ScalarDouble (1 / 3)) True
              (Parameter 1 \<lparr>element_type = U64, dimensions = []\<rparr>) ! 1) =
           Some (VFloat (Fin n)) \<and>
         1 / 8 \<le> n \<and> n \<le> 1 / 3) \<and>
   eval \<lparr>params = [VFloat (Fin (- 2))], draw = 1 / 2\<rparr>
     (BuildRrelu (Parameter 0 \<lparr>element_type = F32, dimensions = [1]\<rparr>)
        (ScalarDouble (1 / 8)) (ScalarDouble (1 / 3)) False
        (Parameter 1 \<lparr>element_type = U64, dimensions = []\<rparr>) ! 1) = Some (VFloat (Fin 0)) \<and>
   eval \<lparr>params = [VFloat (Fin 2)], draw = 1 / 2\<rparr>
     (Parameter 0 \<lparr>element_type = F32, dimensions = [1]\<rparr>) = Some (VFloat (Fin 2)) \<and>
   0 < (2 :: real) \<and>
   eval \<lparr>params = [VFloat (Fin 2)], draw = 1 / 2\<rparr>
     (BuildRrelu (Parameter 0 \<lparr>element_type = F32, dimensions = [1]\<rparr>)
        (ScalarDouble (1 / 8)) (ScalarDouble (1 / 3)) True
        (Parameter 1 \<lparr>element_type = U64, dimensions = []\<rparr>) ! 1) = Some (VFloat (Fin 1))"
proof -
  have h1: "IsFloatingPointType
      (TypeOfXlaOp (Parameter 0 \<lparr>element_type = F32, dimensions = [1]\<rparr>))"
    by simp
  have h2: "eval \<lparr>params = [VFloat (Fin (- 2))], draw = 1 / 2\<rparr>
     (Parameter 0 \<lparr>element_type = F32, dimensions = [1]\<rparr>) = Some (VFloat (Fin (- 2)))"
    by simp
  have h3: "\<not> 0 < (- 2 :: real) \<and>
    toDouble (ScalarDouble (1 / 8)) \<le> toDouble (ScalarDouble (1 / 3))"
    by simp
  note T = BuildRrelu_noise_and_output [OF h1 h2, of "ScalarDouble (1 / 8)" "ScalarDouble (1 / 3)"
      "Parameter 1 \<lparr>element_type = U64, dimensions = []\<rparr>"]
  have c1: "\<exists>n. eval \<lparr>params = [VFloat (Fin (- 2))], draw = 1 / 2\<rparr>
           (BuildRrelu (Parameter 0 \<lparr>element_type = F32, dimensions = [1]\<rparr>)
              (ScalarDouble (1 / 8)) (ScalarDouble (1 / 3)) True
              (Parameter 1 \<lparr>element_type = U64, dimensions = []\<rparr>) ! 1) =
           Some (VFloat (Fin n)) \<and>
         toDouble (ScalarDouble (1 / 8)) \<le> n \<and> n \<le> toDouble (ScalarDouble (1 / 3))"
    using T h3 by blast
  have c2: "eval \<lparr>params = [VFloat (Fin (- 2))], draw = 1 / 2\<rparr>
     (BuildRrelu (Parameter 0 \<lparr>element_type = F32, dimensions = [1]\<rparr>)
        (ScalarDouble (1 / 8)) (ScalarDouble (1 / 3)) False
        (Parameter 1 \<lparr>element_type = U64, dimensions = []\<rparr>) ! 1) = Some (VFloat (Fin 0))"
    using T by blast
  have p2: "eval \<lparr>params = [VFloat (Fin 2)], draw = 1 / 2\<rparr>
     (Parameter 0 \<lparr>element_type = F32, dimensions = [1]\<rparr>) = Some (VFloat (Fin 2))"
    by simp
  have p3: "0 < (2 :: real)" by simp
  have c3: "eval \<lparr>params = [VFloat (Fin 2)], draw = 1 / 2\<rparr>
     (BuildRrelu (Parameter 0 \<lparr>element_type = F32, dimensions = [1]\<rparr>)
        (ScalarDouble (1 / 8)) (ScalarDouble (1 / 3)) True
        (Parameter 1 \<lparr>element_type = U64, dimensions = []\<rparr>) ! 1) = Some (VFloat (Fin 1))"
    using BuildRrelu_noise_and_output [OF h1 p2, of "ScalarDouble (1 / 8)" "ScalarDouble (1 / 3)"
        "Parameter 1 \<lparr>element_type = U64, dimensions = []\<rparr>"] p3
    by blast
  show ?thesis
    using h1 h2 h3 c1 c2 p2 c3 by simp
qed

text \<open>
  C2, as the claim states it, fails: in training mode the noise element at a positive
  input is \<open>1\<close>, which lies outside \<open>[lower, upper] = [1/8, 1/3]\<close>.
\<close>

theorem BuildRrelu_noise_outside_bounds:
  "eval \<lparr>params = [VFloat (Fin 2)], draw = 0\<rparr>
     (BuildRrelu (Parameter 0 \<lparr>element_type = F32, dimensions = [1]\<rparr>)
        (ScalarDouble (1 / 8)) (ScalarDouble (1 / 3)) True
        (Parameter 1 \<lparr>element_type = U64, dimensions = []\<rparr>) ! 1) = Some (VFloat (Fin 1)) \<and>
   \<not> (toDouble (ScalarDouble (1 / 8)) \<le> 1 \<and> 1 \<le> toDouble (ScalarDouble (1 / 3)))"
  by (simp add: BuildRrelu_def Let_def RngUniform_def Zero_def One_def ScalarValue_def
      const_val_def IsIntegralType_def TypeOfXlaOp_def)




text \<open>
  C8: where the input element is NaN, \<open>BuildSign\<close> yields \<open>0\<close>; elsewhere it yields
  the primitive sign of the element, for a floating and for a signed integral kind; for
  an unsigned integral kind it yields the comparison \<open>x > 0\<close> converted back to the kind
  of the input, that is \<open>1\<close> for a positive element and \<open>0\<close> for zero. The signed
  tensor \<open>[-3, 0, 4]\<close> gives \<open>[-1, 0, 1]\<close>, the unsigned tensor \<open>[0, 5]\<close> gives
  \<open>[0, 1]\<close>, and the floating tensor \<open>[NaN, -2.5]\<close> gives \<open>[0, -1]\<close>.
\<close>

theorem BuildSign_values:
  "(IsFloatingPointType (TypeOfXlaOp input) \<and> eval env input = Some (VFloat NaN) \<longrightarrow>
      eval env (BuildSign dev input) = Some (VFloat (Fin 0))) \<and>
   (IsFloatingPointType (TypeOfXlaOp input) \<and> eval env input = Some (VFloat x) \<and> x \<noteq> NaN \<longrightarrow>
      eval env (BuildSign dev input) = eval env (Unary kSign input) \<and>
      eval env (BuildSign dev input) = Some (VFloat (Fin (fsgn x)))) \<and>
   (IsSignedIntegralType (TypeOfXlaOp input) \<and> eval env input = Some (VInt n) \<longrightarrow>
      eval env (BuildSign dev input) = eval env (Unary kSign input) \<and>
      eval env (BuildSign dev input) = Some (VInt (sgn n))) \<and>
   (IsUnsignedIntegralType (TypeOfXlaOp input) \<and> eval env input = Some (VInt n) \<longrightarrow>
      eval env (BuildSign dev input) =
        eval env (ConvertElementType (Compare kGt input (Zero (TypeOfXlaOp input)) [])
                    (TypeOfXlaOp input)) \<and>
      eval env (BuildSign dev input) = Some (VInt (if 0 < n then 1 else 0))) \<and>
   eval_elements (BuildSign dev (Parameter 0 \<lparr>element_type = S32, dimensions = [3]\<rparr>))
     [VInt (- 3), VInt 0, VInt 4] = [Some (VInt (- 1)), Some (VInt 0), Some (VInt 1)] \<and>
   eval_elements (BuildSign dev (Parameter 0 \<lparr>element_type = U8, dimensions = [2]\<rparr>))
     [VInt 0, VInt 5] = [Some (VInt 0), Some (VInt 1)] \<and>
   eval_elements (BuildSign dev (Parameter 0 \<lparr>element_type = F32, dimensions = [2]\<rparr>))
     [VFloat NaN, VFloat (Fin (- 5 / 2))] = [Some (VFloat (Fin 0)), Some (VFloat (Fin (- 1)))]"
proof (intro conjI impI)
  assume "IsFloatingPointType (TypeOfXlaOp input) \<and> eval env input = Some (VFloat NaN)"
  then show "eval env (BuildSign dev input) = Some (VFloat (Fin 0))"
    by (simp add: BuildSign_nan)
next
  assume a: "IsFloatingPointType (TypeOfXlaOp input) \<and> eval env input = Some (VFloat x) \<and> x \<noteq> NaN"
  then show "eval env (BuildSign dev input) = Some (VFloat (Fin (fsgn x)))"
    by (simp add: BuildSign_float)
  with a show "eval env (BuildSign dev input) = eval env (Unary kSign input)"
    using primitive_sign_eval(2)[of env input x] by simp
next
  assume a: "IsSignedIntegralType (TypeOfXlaOp input) \<and> eval env input = Some (VInt n)"
  then show "eval env (BuildSign dev input) = Some (VInt (sgn n))"
    by (simp add: BuildSign_signed)
  with a show "eval env (BuildSign dev input) = eval env (Unary kSign input)"
    using primitive_sign_eval(1)[of env input n] by simp
next
  assume a: "IsUnsignedIntegralType (TypeOfXlaOp input) \<and> eval env input = Some (VInt n)"
  then show "eval env (BuildSign dev input) = Some (VInt (if 0 < n then 1 else 0))"
    by (simp add: BuildSign_unsigned)
  with a show "eval env (BuildSign dev input) =
        eval env (ConvertElementType (Compare kGt input (Zero (TypeOfXlaOp input)) [])
                    (TypeOfXlaOp input))"
    using positive_cast_eval[of input env n] by simp
next
  show "eval_elements (BuildSign dev (Parameter 0 \<lparr>element_type = S32, dimensions = [3]\<rparr>))
     [VInt (- 3), VInt 0, VInt 4] = [Some (VInt (- 1)), Some (VInt 0), Some (VInt 1)]"
    by (simp add: eval_elements_def BuildSign_signed IsIntegralType_def wrap_def bit_width_def
        CHAR_BIT_def)
next
  show "eval_elements (BuildSign dev (Parameter 0 \<lparr>element_type = U8, dimensions = [2]\<rparr>))
     [VInt 0, VInt 5] = [Some (VInt 0), Some (VInt 1)]"
    by (simp add: eval_elements_def BuildSign_unsigned IsIntegralType_def wrap_def bit_width_def
        CHAR_BIT_def)
next
  show "eval_elements (BuildSign dev (Parameter 0 \<lparr>element_type = F32, dimensions = [2]\<rparr>))
     [VFloat NaN, VFloat (Fin (- 5 / 2))] = [Some (VFloat (Fin 0)), Some (VFloat (Fin (- 1)))]"
    by (simp add: eval_elements_def BuildSign_nan BuildSign_float)
qed

theorem BuildSign_values_witness:
  "IsFloatingPointType (TypeOfXlaOp (Parameter 0 \<lparr>element_type = F32, dimensions = [1]\<rparr>)) \<and>
   eval \<lparr>params = [VFloat NaN], draw = 0\<rparr>
     (Parameter 0 \<lparr>element_type = F32, dimensions = [1]\<rparr>) = Some (VFloat NaN) \<and>
   eval \<lparr>params = [VFloat NaN], draw = 0\<rparr>
     (BuildSign native_device (Parameter 0 \<lparr>element_type = F32, dimensions = [1]\<rparr>)) =
     Some (VFloat (Fin 0)) \<and>
   IsSignedIntegralType (TypeOfXlaOp (Parameter 0 \<lparr>element_type = S32, dimensions = [1]\<rparr>)) \<and>
   eval \<lparr>params = [VInt (- 3)], draw = 0\<rparr>
     (Parameter 0 \<lparr>element_type = S32, dimensions = [1]\<rparr>) = Some (VInt (- 3)) \<and>
   eval \<lparr>params = [VInt (- 3)], draw = 0\<rparr>
     (BuildSign native_device (Parameter 0 \<lparr>element_type = S32, dimensions = [1]\<rparr>)) =
     Some (VInt (- 1)) \<and>
   IsUnsignedIntegralType (TypeOfXlaOp (Parameter 0 \<lparr>element_type = U8, dimensions = [1]\<rparr>)) \<and>
   eval \<lparr>params = [VInt 5], draw = 0\<rparr>
     (Parameter 0 \<lparr>element_type = U8, dimensions = [1]\<rparr>) = Some (VInt 5) \<and>
   eval \<lparr>params = [VInt 5], draw = 0\<rparr>
     (BuildSign native_device (Parameter 0 \<lparr>element_type = U8, dimensions = [1]\<rparr>)) =
     Some (VInt 1)"
proof -
  have f1: "IsFloatingPointType
      (TypeOfXlaOp (Parameter 0 \<lparr>element_type = F32, dimensions = [1]\<rparr>))"
    by simp
  have f2: "eval \<lparr>params = [VFloat NaN], draw = 0\<rparr>
     (Parameter 0 \<lparr>element_type = F32, dimensions = [1]\<rparr>) = Some (VFloat NaN)"
    by simp
  have s1: "IsSignedIntegralType
      (TypeOfXlaOp (Parameter 0 \<lparr>element_type = S32, dimensions = [1]\<rparr>))"
    by simp
  have s2: "eval \<lparr>params = [VInt (- 3)], draw = 0\<rparr>
     (Parameter 0 \<lparr>element_type = S32, dimensions = [1]\<rparr>) = Some (VInt (- 3))"
    by (simp add: IsIntegralType_def wrap_def bit_width_def CHAR_BIT_def)
  have u1: "IsUnsignedIntegralType
      (TypeOfXlaOp (Parameter 0 \<lparr>element_type = U8, dimensions = [1]\<rparr>))"
    by simp
  have u2: "eval \<lparr>params = [VInt 5], draw = 0\<rparr>
     (Parameter 0 \<lparr>element_type = U8, dimensions = [1]\<rparr>) = Some (VInt 5)"
    by (simp add: IsIntegralType_def wrap_def bit_width_def CHAR_BIT_def)
  have c1: "eval \<lparr>params = [VFloat NaN], draw = 0\<rparr>
     (BuildSign native_device (Parameter 0 \<lparr>element_type = F32, dimensions = [1]\<rparr>)) =
     Some (VFloat (Fin 0))"
    using BuildSign_values
      [of "Parameter 0 \<lparr>element_type = F32, dimensions = [1]\<rparr>"
          "\<lparr>params = [VFloat NaN], draw = 0\<rparr>" native_device] f1 f2
    by blast
  have c2: "eval \<lparr>params = [VInt (- 3)], draw = 0\<rparr>
     (BuildSign native_device (Parameter 0 \<lparr>element_type = S32, dimensions = [1]\<rparr>)) =
     Some (VInt (sgn (- 3)))"
    using BuildSign_values
      [of "Parameter 0 \<lparr>element_type = S32, dimensions = [1]\<rparr>"
          "\<lparr>params = [VInt (- 3)], draw = 0\<rparr>" native_device _ "- 3"] s1 s2
    by blast
  have c3: "eval \<lparr>params = [VInt 5], draw = 0\<rparr>
     (BuildSign native_device (Parameter 0 \<lparr>element_type = U8, dimensions = [1]\<rparr>)) =
     Some (VInt (if (0::int) < 5 then 1 else 0))"
    using BuildSign_values
      [of "Parameter 0 \<lparr>element_type = U8, dimensions = [1]\<rparr>"
          "\<lparr>params = [VInt 5], draw = 0\<rparr>" native_device _ 5] u1 u2
    by blast
  show ?thesis
    using f1 f2 s1 s2 u1 u2 c1 c2 c3 by simp
qed

text \<open>
  C9, as the code has it. Let the promotion utility return two operands of one kind, and
  let every operand passed in contain only instructions on operands of one kind. Then
  hard-shrink, soft-shrink, leaky-ReLU and ELU convert their auxiliary operand (lambda,
  slope, alpha, scale, input scale) to the element kind of the main input before any
  instruction combines the two, and their graphs contain no instruction on operands of
  differing kind. Shrink-backward and leaky-ReLU-backward convert the auxiliary operand
  in the same way, but never convert \<open>grad_output\<close>: their graphs contain no
  instruction on operands of differing kind exactly when \<open>grad_output\<close> has the kind of
  the input. \<open>BuildSoftplus\<close> applies its instructions to \<open>beta\<close> and \<open>threshold\<close>
  as they are given, without any conversion.
\<close>

theorem auxiliary_operand_converted_to_input_kind:
  assumes "Promote_gives_one_kind h"
    and "same_kind_operands input" and "same_kind_operands aux"
    and "same_kind_operands aux2" and "same_kind_operands aux3"
    and "same_kind_operands grad_output"
  shows "TypeOfXlaOp (MaybeConvertTo aux (TypeOfXlaOp input)) = TypeOfXlaOp input \<and>
    \<not> isl (BuildHardshrink h input aux) \<and>
    same_kind_operands (projr (BuildHardshrink h input aux)) \<and>
    same_kind_operands (BuildSoftshrink input aux) \<and>
    same_kind_operands (BuildLeakyRelu input aux) \<and>
    same_kind_operands (BuildElu input aux aux2 aux3) \<and>
    \<not> isl (BuildShrinkBackward h grad_output input aux) \<and>
    (same_kind_operands (projr (BuildShrinkBackward h grad_output input aux)) \<longleftrightarrow>
       TypeOfXlaOp grad_output = TypeOfXlaOp input) \<and>
    BuildLeakyReluBackward grad_output input aux =
      Select (Compare kGt input (Zero (TypeOfXlaOp input)) []) grad_output
        (Binary kMul (MaybeConvertTo aux (TypeOfXlaOp input)) grad_output []) \<and>
    (same_kind_operands (BuildLeakyReluBackward grad_output input aux) \<longleftrightarrow>
       TypeOfXlaOp grad_output = TypeOfXlaOp input) \<and>
    BuildSoftplus input aux aux2 =
      Select (Compare kGt (Binary kMul input aux []) aux2 []) input
        (Binary kDiv (Unary kLog1p (Unary kExp (Binary kMul input aux []))) aux [])"
proof (intro conjI)
  show "TypeOfXlaOp (MaybeConvertTo aux (TypeOfXlaOp input)) = TypeOfXlaOp input"
    by simp
  show "\<not> isl (BuildHardshrink h input aux)"
    by (rule BuildHardshrink_kinds(1)[OF assms(1-3)])
  show "same_kind_operands (projr (BuildHardshrink h input aux))"
    by (rule BuildHardshrink_kinds(2)[OF assms(1-3)])
  show "same_kind_operands (BuildSoftshrink input aux)"
    by (rule BuildSoftshrink_kinds[OF assms(2,3)])
  show "same_kind_operands (BuildLeakyRelu input aux)"
    using BuildLeakyReluBackward_kinds[OF assms(2,3) assms(2)] by (simp add: BuildLeakyRelu_def)
  show "same_kind_operands (BuildElu input aux aux2 aux3)"
    by (rule BuildElu_kinds[OF assms(2-5)])
  show "\<not> isl (BuildShrinkBackward h grad_output input aux)"
    by (rule BuildShrinkBackward_kinds(1)[OF assms(1-3) assms(6)])
  show "same_kind_operands (projr (BuildShrinkBackward h grad_output input aux)) \<longleftrightarrow>
       TypeOfXlaOp grad_output = TypeOfXlaOp input"
    by (rule BuildShrinkBackward_kinds(2)[OF assms(1-3) assms(6)])
  show "BuildLeakyReluBackward grad_output input aux =
      Select (Compare kGt input (Zero (TypeOfXlaOp input)) []) grad_output
        (Binary kMul (MaybeConvertTo aux (TypeOfXlaOp input)) grad_output [])"
    by (rule BuildLeakyReluBackward_graph)
  show "same_kind_operands (BuildLeakyReluBackward grad_output input aux) \<longleftrightarrow>
       TypeOfXlaOp grad_output = TypeOfXlaOp input"
    by (rule BuildLeakyReluBackward_kinds[OF assms(2,3) assms(6)])
  show "BuildSoftplus input aux aux2 =
      Select (Compare kGt (Binary kMul input aux []) aux2 []) input
        (Binary kDiv (Unary kLog1p (Unary kExp (Binary kMul input aux []))) aux [])"
    by (simp add: BuildSoftplus_def)
qed

theorem auxiliary_operand_converted_to_input_kind_witness:
  "Promote_gives_one_kind promote_to_first \<and>
   same_kind_operands (Parameter 0 \<lparr>element_type = F32, dimensions = [2]\<rparr>) \<and>
   same_kind_operands (Parameter 1 \<lparr>element_type = F64, dimensions = []\<rparr>) \<and>
   same_kind_operands (Parameter 2 \<lparr>element_type = F32, dimensions = [2]\<rparr>) \<and>
   same_kind_operands (Parameter 3 \<lparr>element_type = F64, dimensions = [2]\<rparr>) \<and>
   same_kind_operands
     (projr (BuildHardshrink promote_to_first
        (Parameter 0 \<lparr>element_type = F32, dimensions = [2]\<rparr>)
        (Parameter 1 \<lparr>element_type = F64, dimensions = []\<rparr>))) \<and>
   same_kind_operands
     (BuildSoftshrink (Parameter 0 \<lparr>element_type = F32, dimensions = [2]\<rparr>)
        (Parameter 1 \<lparr>element_type = F64, dimensions = []\<rparr>)) \<and>
   same_kind_operands
     (BuildElu (Parameter 0 \<lparr>element_type = F32, dimensions = [2]\<rparr>)
        (Parameter 1 \<lparr>element_type = F64, dimensions = []\<rparr>)
        (Parameter 1 \<lparr>element_type = F64, dimensions = []\<rparr>)
        (Parameter 1 \<lparr>element_type = F64, dimensions = []\<rparr>)) \<and>
   same_kind_operands
     (BuildLeakyReluBackward (Parameter 2 \<lparr>element_type = F32, dimensions = [2]\<rparr>)
        (Parameter 0 \<lparr>element_type = F32, dimensions = [2]\<rparr>)
        (Parameter 1 \<lparr>element_type = F64, dimensions = []\<rparr>)) \<and>
   \<not> same_kind_operands
     (BuildLeakyReluBackward (Parameter 3 \<lparr>element_type = F64, dimensions = [2]\<rparr>)
        (Parameter 0 \<lparr>element_type = F32, dimensions = [2]\<rparr>)
        (Parameter 1 \<lparr>element_type = F64, dimensions = []\<rparr>)) \<and>
   \<not> same_kind_operands
     (projr (BuildShrinkBackward promote_to_first
        (Parameter 3 \<lparr>element_type = F64, dimensions = [2]\<rparr>)
        (Parameter 0 \<lparr>element_type = F32, dimensions = [2]\<rparr>)
        (Parameter 1 \<lparr>element_type = F64, dimensions = []\<rparr>)))"
proof -
  have h1: "Promote_gives_one_kind promote_to_first"
    by (rule promote_to_first_one_kind)
  have h2: "same_kind_operands (Parameter 0 \<lparr>element_type = F32, dimensions = [2]\<rparr>)"
    and h3: "same_kind_operands (Parameter 1 \<lparr>element_type = F64, dimensions = []\<rparr>)"
    and h4: "same_kind_operands (Parameter 2 \<lparr>element_type = F32, dimensions = [2]\<rparr>)"
    and h5: "same_kind_operands (Parameter 3 \<lparr>element_type = F64, dimensions = [2]\<rparr>)"
    by simp_all
  have k1: "TypeOfXlaOp (Parameter 2 \<lparr>element_type = F32, dimensions = [2]\<rparr>) =
            TypeOfXlaOp (Parameter 0 \<lparr>element_type = F32, dimensions = [2]\<rparr>)"
    and k2: "TypeOfXlaOp (Parameter 3 \<lparr>element_type = F64, dimensions = [2]\<rparr>) \<noteq>
             TypeOfXlaOp (Parameter 0 \<lparr>element_type = F32, dimensions = [2]\<rparr>)"
    by simp_all
  show ?thesis
    using h1 h2 h3 h4 h5 k1 k2
      auxiliary_operand_converted_to_input_kind [OF h1 h2 h3 h3 h3 h4]
      auxiliary_operand_converted_to_input_kind [OF h1 h2 h3 h3 h3 h5]
    by blast
qed

text \<open>
  C9, as the claim states it, fails: \<open>BuildSoftplus\<close> converts neither \<open>beta\<close> nor
  \<open>threshold\<close>. With an \<open>F32\<close> input and \<open>F64\<close> auxiliary operands its first
  multiplication is applied to operands of two kinds.
\<close>

theorem BuildSoftplus_mixed_kinds:
  "same_kind_operands (Parameter 0 \<lparr>element_type = F32, dimensions = [2]\<rparr>) \<and>
   same_kind_operands (Parameter 1 \<lparr>element_type = F64, dimensions = []\<rparr>) \<and>
   same_kind_operands (Parameter 2 \<lparr>element_type = F64, dimensions = []\<rparr>) \<and>
   \<not> same_kind_operands
        (BuildSoftplus (Parameter 0 \<lparr>element_type = F32, dimensions = [2]\<rparr>)
           (Parameter 1 \<lparr>element_type = F64, dimensions = []\<rparr>)
           (Parameter 2 \<lparr>element_type = F64, dimensions = []\<rparr>)) \<and>
   BuildSoftplus (Parameter 0 \<lparr>element_type = F32, dimensions = [2]\<rparr>)
     (Parameter 1 \<lparr>element_type = F64, dimensions = []\<rparr>)
     (Parameter 2 \<lparr>element_type = F64, dimensions = []\<rparr>) =
   Select
     (Compare kGt
        (Binary kMul (Parameter 0 \<lparr>element_type = F32, dimensions = [2]\<rparr>)
           (Parameter 1 \<lparr>element_type = F64, dimensions = []\<rparr>) [])
        (Parameter 2 \<lparr>element_type = F64, dimensions = []\<rparr>) [])
     (Parameter 0 \<lparr>element_type = F32, dimensions = [2]\<rparr>)
     (Binary kDiv
        (Unary kLog1p (Unary kExp
           (Binary kMul (Parameter 0 \<lparr>element_type = F32, dimensions = [2]\<rparr>)
              (Parameter 1 \<lparr>element_type = F64, dimensions = []\<rparr>) [])))
        (Parameter 1 \<lparr>element_type = F64, dimensions = []\<rparr>) [])"
  by (simp add: BuildSoftplus_def)

end
